theory Spec2Isabelle
  imports
    Complex_Main
    "HOL-Library.Char_ord"
    "HOL-Library.List_Lexorder"
    "HOL-Library.Option_ord"
    "HOL-Library.Product_Lexorder"
begin

section \<open>Timesheet reconciliation: data model\<close>

text \<open>
  The repository reconciles spreadsheet rows with a relational table through pandas
  frames. The embedding keeps the frames the core works on:
  \<^item> a Python \<open>str\<close> is a \<open>string\<close>, its characters being code points below 256;
  \<^item> a parsed \<open>Date\<close> cell (after \<open>pd.to_datetime(..., errors="coerce")\<close>) is an optional
    timestamp, \<open>None\<close> standing for \<open>NaT\<close>;
  \<^item> a text cell is an optional string and a numeric cell an optional rational, the
    exact value of the number it holds, \<open>None\<close> standing for \<open>NA\<close>/\<open>NaN\<close>/SQL \<open>NULL\<close>;
  \<^item> the in-memory deduplicator is generic in the schema, so it works on a frame with a
    list of column names and rows that map a column name to a cell.
\<close>

subsection \<open>Strings\<close>

definition py_isspace :: "char \<Rightarrow> bool" where
  \<comment> \<open>\<open>str.isspace\<close> on the code points below 256\<close>
  "py_isspace c =
     (let n = (of_char c :: nat)
      in (9 \<le> n \<and> n \<le> 13) \<or> (28 \<le> n \<and> n \<le> 32) \<or> n = 133 \<or> n = 160)"

definition py_strip :: "string \<Rightarrow> string" where
  \<comment> \<open>\<open>str.strip()\<close>\<close>
  "py_strip s = rev (dropWhile py_isspace (rev (dropWhile py_isspace s)))"

definition py_rstrip_chars :: "string \<Rightarrow> string \<Rightarrow> string" where
  \<comment> \<open>\<open>s.rstrip(chars)\<close>\<close>
  "py_rstrip_chars cs s = rev (dropWhile (\<lambda>c. c \<in> set cs) (rev s))"

definition py_lower_char :: "char \<Rightarrow> char" where
  \<comment> \<open>\<open>str.lower\<close> on one code point below 256\<close>
  "py_lower_char c =
     (let n = (of_char c :: nat)
      in if (65 \<le> n \<and> n \<le> 90) \<or> (192 \<le> n \<and> n \<le> 222 \<and> n \<noteq> 215)
         then char_of (n + 32) else c)"

definition py_lower :: "string \<Rightarrow> string" where
  "py_lower s = map py_lower_char s"

fun py_join :: "string \<Rightarrow> string list \<Rightarrow> string" where
  \<comment> \<open>\<open>sep.join(parts)\<close>\<close>
  "py_join sep [] = []"
| "py_join sep [p] = p"
| "py_join sep (p # q # ps) = p @ sep @ py_join sep (q # ps)"

subsection \<open>Numbers and dates as text\<close>

definition digit_char :: "nat \<Rightarrow> char" where
  "digit_char d = char_of (48 + d)"

fun show_nat :: "nat \<Rightarrow> string" where
  "show_nat n = (if n < 10 then [digit_char n] else show_nat (n div 10) @ [digit_char (n mod 10)])"

declare show_nat.simps [simp del]

definition py_str_int :: "int \<Rightarrow> string" where
  \<comment> \<open>\<open>str(n)\<close> of a whole number\<close>
  "py_str_int i = (if i < 0 then CHR ''-'' # show_nat (nat (- i)) else show_nat (nat i))"

definition zero_pad :: "nat \<Rightarrow> string \<Rightarrow> string" where
  "zero_pad w s = replicate (w - length s) CHR ''0'' @ s"

type_synonym timestamp = "nat \<times> nat \<times> nat \<times> nat"
  \<comment> \<open>year, month, day, time of day; the lexicographic order is the chronological one\<close>

definition ts_year :: "timestamp \<Rightarrow> nat" where "ts_year t = fst t"
definition ts_month :: "timestamp \<Rightarrow> nat" where "ts_month t = fst (snd t)"
definition ts_day :: "timestamp \<Rightarrow> nat" where "ts_day t = fst (snd (snd t))"
definition ts_time :: "timestamp \<Rightarrow> nat" where "ts_time t = snd (snd (snd t))"

definition ts_date :: "timestamp \<Rightarrow> nat \<times> nat \<times> nat" where
  \<comment> \<open>\<open>Timestamp.date()\<close> and SQL \<open>DATE(...)\<close>: the calendar day\<close>
  "ts_date t = (ts_year t, ts_month t, ts_day t)"

definition strftime_ymd :: "timestamp \<Rightarrow> string" where
  \<comment> \<open>\<open>strftime("%Y-%m-%d")\<close>\<close>
  "strftime_ymd t =
     zero_pad 4 (show_nat (ts_year t)) @ ''-'' @ zero_pad 2 (show_nat (ts_month t)) @ ''-''
       @ zero_pad 2 (show_nat (ts_day t))"

subsection \<open>Generic frames and the in-memory deduplicator\<close>

record 'v frame =
  frame_columns :: "string list"
  frame_rows :: "(string \<Rightarrow> 'v) list"

definition frame_empty :: "'v frame \<Rightarrow> bool" where
  \<comment> \<open>\<open>df.empty\<close>: no rows or no columns\<close>
  "frame_empty df = (frame_rows df = [] \<or> frame_columns df = [])"

fun drop_duplicates_last :: "('a \<Rightarrow> 'k) \<Rightarrow> 'a list \<Rightarrow> 'a list" where
  \<comment> \<open>\<open>drop_duplicates(subset=..., keep="last")\<close>, the subset given as a projection\<close>
  "drop_duplicates_last f [] = []"
| "drop_duplicates_last f (x # xs) =
     (if f x \<in> set (map f xs) then drop_duplicates_last f xs
      else x # drop_duplicates_last f xs)"

fun drop_duplicates_first :: "('a \<Rightarrow> 'k) \<Rightarrow> 'a list \<Rightarrow> 'a list" where
  \<comment> \<open>\<open>drop_duplicates(subset=...)\<close> with the default \<open>keep="first"\<close>\<close>
  "drop_duplicates_first f [] = []"
| "drop_duplicates_first f (x # xs) =
     x # drop_duplicates_first f (filter (\<lambda>y. f y \<noteq> f x) xs)"

definition project :: "string list \<Rightarrow> (string \<Rightarrow> 'v) \<Rightarrow> 'v list" where
  \<comment> \<open>the tuple of a row's cells in the given columns\<close>
  "project cols r = map r cols"

definition usable_columns :: "'v frame \<Rightarrow> string list \<Rightarrow> string list" where
  "usable_columns df subset_cols = filter (\<lambda>col. col \<in> set (frame_columns df)) subset_cols"

definition deduplicate_dataframe :: "'v frame \<Rightarrow> string list \<Rightarrow> 'v frame" where
  "deduplicate_dataframe df subset_cols =
     (if frame_empty df then df
      else if usable_columns df subset_cols = [] then df
      else df\<lparr>frame_rows :=
             drop_duplicates_last (project (usable_columns df subset_cols)) (frame_rows df)\<rparr>)"

definition removed_count :: "'v frame \<Rightarrow> string list \<Rightarrow> nat" where
  \<comment> \<open>the count the function logs: \<open>before - len(result)\<close>\<close>
  "removed_count df subset_cols =
     length (frame_rows df) - length (frame_rows (deduplicate_dataframe df subset_cols))"

definition keeps_last_occurrences :: "('a \<Rightarrow> 'k) \<Rightarrow> 'a list \<Rightarrow> 'a list" where
  \<comment> \<open>The contract in the specification's words: the rows, in input order, whose identity
      tuple no later row of the input has.\<close>
  "keeps_last_occurrences f xs =
     map snd (filter (\<lambda>(i, x). f x \<notin> set (map f (drop (Suc i) xs))) (enumerate 0 xs))"

subsection \<open>Timesheet and status records\<close>

text \<open>
  The identity columns, the status projection and the full timesheet row, as the columns
  of \<open>STATUS_COLUMNS\<close> and \<open>TIMESHEET_COLUMNS\<close>. A function written for the identity
  columns works on every frame that has them, as \<open>build_simple_key\<close> does in the source.
\<close>

record KeyColumns =
  Date :: "timestamp option"
  Employee_Name :: "string option"
  Project_ID :: "string option"

record StatusRecord = KeyColumns +
  Status :: "string option"

record TimesheetRecord = StatusRecord +
  Employee_Role :: "string option"
  Office_Location :: "string option"
  Project_Name :: "string option"
  Working_Hours :: "rat option"
  Interviews :: "rat option"
  Database :: "rat option"
  Database_Converted :: "rat option"

subsection \<open>Python's renderings of numbers\<close>

text \<open>
  A numeric cell holds the exact value of its number. What \<open>str(value)\<close> and
  \<open>"%.2f" % value\<close> print for it belongs to the Python runtime and to the dtype of the
  column, so both renderings are parameters of the functions that call them.
\<close>

record PythonText =
  str_number :: "rat \<Rightarrow> string"
  fixed2_number :: "rat \<Rightarrow> string"

subsection \<open>Key and signature builder\<close>

definition normalize_text :: "string option \<Rightarrow> string" where
  \<comment> \<open>one cell of \<open>normalize_text_series\<close>: \<open>"" if pd.isna(value) else str(value).strip()\<close>\<close>
  "normalize_text v = (case v of None \<Rightarrow> [] | Some s \<Rightarrow> py_strip s)"

definition normalize_number :: "PythonText \<Rightarrow> rat option \<Rightarrow> string" where
  \<comment> \<open>the same on a numeric cell\<close>
  "normalize_number py v = (case v of None \<Rightarrow> [] | Some n \<Rightarrow> py_strip (str_number py n))"

definition date_text :: "timestamp option \<Rightarrow> string" where
  \<comment> \<open>\<open>.dt.strftime("%Y-%m-%d").fillna("")\<close>\<close>
  "date_text d = (case d of None \<Rightarrow> [] | Some t \<Rightarrow> strftime_ymd t)"

definition simple_key :: "'a KeyColumns_scheme \<Rightarrow> string" where
  "simple_key r =
     date_text (Date r) @ ''|'' @ normalize_text (Employee_Name r) @ ''|''
       @ normalize_text (Project_ID r)"

definition build_simple_key :: "'a KeyColumns_scheme list \<Rightarrow> string list" where
  "build_simple_key df = (if df = [] then [] else map simple_key df)"

definition signature :: "PythonText \<Rightarrow> TimesheetRecord \<Rightarrow> string" where
  \<comment> \<open>the date, then \<open>SIGNATURE_EXTRA_COLUMNS\<close> in their order, joined by \<open>"|"\<close>\<close>
  "signature py r =
     py_join ''|''
       [date_text (Date r),
        normalize_text (Employee_Name r),
        normalize_text (Employee_Role r),
        normalize_text (Office_Location r),
        normalize_text (Project_Name r),
        normalize_text (Project_ID r),
        normalize_number py (Working_Hours r),
        normalize_text (Status r),
        normalize_number py (Interviews r),
        normalize_number py (Database r),
        normalize_number py (Database_Converted r)]"

definition build_signature :: "PythonText \<Rightarrow> TimesheetRecord list \<Rightarrow> string list" where
  "build_signature py df = (if df = [] then [] else map (signature py) df)"

subsection \<open>Business rule normalizer\<close>

definition NON_MEANINGFUL_STATUS :: "string list" where
  "NON_MEANINGFUL_STATUS = [[], ''0'', ''n'', ''no'', ''none'', ''na'', ''n/a'', ''-'', ''--'']"

definition UNKNOWN_TEXT :: string where
  "UNKNOWN_TEXT = ''unknown''"

definition clean_status_value :: "string option \<Rightarrow> string" where
  \<comment> \<open>one cell of \<open>_clean_status_values\<close>\<close>
  "clean_status_value v =
     (let original = py_strip (case v of None \<Rightarrow> [] | Some s \<Rightarrow> s);
          original = filter (\<lambda>c. c \<noteq> CHR 0x0D \<and> c \<noteq> CHR 0x0A \<and> c \<noteq> CHR 0x09) original;
          folded = py_lower original
      in if folded \<in> set NON_MEANINGFUL_STATUS then [] else original)"

definition hours_positive :: "rat option \<Rightarrow> bool" where
  \<comment> \<open>\<open>hours > 0\<close> on the coerced numeric column; false on \<open>NaN\<close>\<close>
  "hours_positive h = (case h of None \<Rightarrow> False | Some n \<Rightarrow> 0 < n)"

definition stripped_status :: "TimesheetRecord \<Rightarrow> TimesheetRecord" where
  \<comment> \<open>\<open>work["Status"].astype("string").fillna("").str.strip()\<close>\<close>
  "stripped_status r = r\<lparr>Status := Some (py_strip (case Status r of None \<Rightarrow> [] | Some s \<Rightarrow> s))\<rparr>"

definition keep_mask :: "TimesheetRecord \<Rightarrow> bool" where
  "keep_mask r = (hours_positive (Working_Hours r) \<or> Status r \<noteq> Some [])"

definition null_hours :: "TimesheetRecord \<Rightarrow> TimesheetRecord" where
  "null_hours r =
     (if Status r \<noteq> Some [] \<and> \<not> hours_positive (Working_Hours r)
      then r\<lparr>Working_Hours := None\<rparr> else r)"

definition enforce_hours_status_rule :: "TimesheetRecord list \<Rightarrow> TimesheetRecord list" where
  "enforce_hours_status_rule df =
     (if df = [] then df
      else map null_hours (filter keep_mask (map stripped_status df)))"

record FormattedRecord =
  fDate :: "string option"
  fEmployee_Name :: string
  fEmployee_Role :: string
  fOffice_Location :: string
  fProject_Name :: string
  fProject_ID :: string
  fWorking_Hours :: string
  fStatus :: string
  fInterviews :: string
  fDatabase :: string
  fDatabase_Converted :: string

definition NULL_MARKER :: string where
  \<comment> \<open>the two characters backslash and N\<close>
  "NULL_MARKER = [CHR 0x5C, CHR ''N'']"

definition format_numeric :: "PythonText \<Rightarrow> rat option \<Rightarrow> string" where
  \<comment> \<open>\<open>("%.2f" % x).rstrip("0").rstrip(".")\<close> on a number and the null marker on \<open>NaN\<close>,
      then the strip that every string column gets\<close>
  "format_numeric py v =
     py_strip (case v of
        None \<Rightarrow> NULL_MARKER
      | Some x \<Rightarrow> py_rstrip_chars ''.'' (py_rstrip_chars ''0'' (fixed2_number py x)))"

definition format_text :: "string option \<Rightarrow> string" where
  \<comment> \<open>a column of \<open>TEXT_COLUMNS\<close>: stripped, missing or empty replaced by \<open>UNKNOWN_TEXT\<close>\<close>
  "format_text v =
     (case v of
        None \<Rightarrow> UNKNOWN_TEXT
      | Some s \<Rightarrow> (if py_strip s = [] then UNKNOWN_TEXT else py_strip s))"

definition format_date :: "timestamp option \<Rightarrow> string option" where
  "format_date d = map_option (\<lambda>t. py_strip (strftime_ymd t)) d"

definition format_record :: "PythonText \<Rightarrow> TimesheetRecord \<Rightarrow> FormattedRecord" where
  "format_record py r =
     \<lparr>fDate = format_date (Date r),
      fEmployee_Name = format_text (Employee_Name r),
      fEmployee_Role = format_text (Employee_Role r),
      fOffice_Location = format_text (Office_Location r),
      fProject_Name = format_text (Project_Name r),
      fProject_ID = format_text (Project_ID r),
      fWorking_Hours = format_numeric py (Working_Hours r),
      fStatus = format_text (Status r),
      fInterviews = format_numeric py (Interviews r),
      fDatabase = format_numeric py (Database r),
      fDatabase_Converted = format_numeric py (Database_Converted r)\<rparr>"

definition format_for_mysql :: "PythonText \<Rightarrow> TimesheetRecord list \<Rightarrow> FormattedRecord list" where
  "format_for_mysql py df = map (format_record py) df"

definition prepare_timesheet_for_insert :: "PythonText \<Rightarrow> TimesheetRecord list \<Rightarrow> FormattedRecord list" where
  "prepare_timesheet_for_insert py df =
     (if df = [] then [] else format_for_mysql py (enforce_hours_status_rule df))"

subsection \<open>The store\<close>

text \<open>
  The table \<open>employees_check.unioned_table\<close> is a list of rows in storage order. Every
  statement that reaches the database may raise; the engine records, for each kind of
  statement, the text of the exception it raises there, if any. A statement that raises
  inside \<open>with engine.begin()\<close> is rolled back and leaves the table as it was. SQL
  equality never holds on \<open>NULL\<close>; text is compared exactly.
\<close>

record Engine =
  delete_exc :: "string option"
  load_data_exc :: "string option"
  to_sql_exc :: "string option"
  update_exc :: "string option"
  dedup_exc :: "(nat \<times> string) option"
    \<comment> \<open>the position, in execution order, of the deduplication statement that raises\<close>
  read_number :: "string \<Rightarrow> rat option"
    \<comment> \<open>the number a numeric column holds for a field of a loaded file\<close>

definition sql_eq :: "'a option \<Rightarrow> 'a option \<Rightarrow> bool" where
  "sql_eq a b = (case a of None \<Rightarrow> False | Some x \<Rightarrow> (case b of None \<Rightarrow> False | Some y \<Rightarrow> x = y))"

definition sql_date :: "timestamp option \<Rightarrow> (nat \<times> nat \<times> nat) option" where
  \<comment> \<open>\<open>DATE(Date)\<close>, and \<open>.date()\<close> of a bound timestamp\<close>
  "sql_date d = map_option ts_date d"

type_synonym key_params = "timestamp option \<times> string option \<times> string option"

definition key_matches :: "key_params \<Rightarrow> 'a KeyColumns_scheme \<Rightarrow> bool" where
  \<comment> \<open>\<open>WHERE DATE(Date) = :date AND Employee_Name = :employee AND Project_ID = :project\<close>\<close>
  "key_matches p t =
     (case p of (d, e, pr) \<Rightarrow>
        sql_eq (sql_date (Date t)) (sql_date d) \<and> sql_eq (Employee_Name t) e
          \<and> sql_eq (Project_ID t) pr)"

definition key_values :: "'a KeyColumns_scheme \<Rightarrow> key_params" where
  \<comment> \<open>the cells \<open>row["Date"], row["Employee_Name"], row["Project_ID"]\<close>\<close>
  "key_values r = (Date r, Employee_Name r, Project_ID r)"

definition delete_timesheet_records ::
  "Engine \<Rightarrow> key_params list \<Rightarrow> TimesheetRecord list \<Rightarrow> string + TimesheetRecord list" where
  "delete_timesheet_records engine keys tbl =
     (if keys = [] then Inr tbl
      else case delete_exc engine of
             Some exc \<Rightarrow> Inl exc
           | None \<Rightarrow> Inr (filter (\<lambda>t. \<not> list_ex (\<lambda>p. key_matches p t) keys) tbl))"

definition is_digit :: "char \<Rightarrow> bool" where
  "is_digit c = (48 \<le> (of_char c :: nat) \<and> (of_char c :: nat) \<le> 57)"

definition parse_nat :: "string \<Rightarrow> nat" where
  "parse_nat s = foldl (\<lambda>a c. 10 * a + ((of_char c :: nat) - 48)) 0 s"

definition stored_number :: "Engine \<Rightarrow> string \<Rightarrow> rat option" where
  \<comment> \<open>a numeric field of the loaded file: the null marker is \<open>NULL\<close>, anything else is
      what the store reads\<close>
  "stored_number engine s = (if s = NULL_MARKER then None else read_number engine s)"

definition parse_date :: "string \<Rightarrow> timestamp option" where
  \<comment> \<open>a date field \<open>YYYY-MM-DD\<close> of the loaded file, stored at midnight\<close>
  "parse_date s =
     (if length s = 10 \<and> s ! 4 = CHR ''-'' \<and> s ! 7 = CHR ''-''
         \<and> list_all is_digit (take 4 s) \<and> list_all is_digit (take 2 (drop 5 s))
         \<and> list_all is_digit (drop 8 s)
      then Some (parse_nat (take 4 s), parse_nat (take 2 (drop 5 s)), parse_nat (drop 8 s), 0)
      else None)"

definition stored_record :: "Engine \<Rightarrow> FormattedRecord \<Rightarrow> TimesheetRecord" where
  \<comment> \<open>The row the storage collaborator holds for one formatted record handed to its
      bulk-insert interface, read back with typed columns.\<close>
  "stored_record engine f =
     \<lparr>Date = (case fDate f of None \<Rightarrow> None | Some s \<Rightarrow> parse_date s),
      Employee_Name = Some (fEmployee_Name f),
      Project_ID = Some (fProject_ID f),
      Status = Some (fStatus f),
      Employee_Role = Some (fEmployee_Role f),
      Office_Location = Some (fOffice_Location f),
      Project_Name = Some (fProject_Name f),
      Working_Hours = stored_number engine (fWorking_Hours f),
      Interviews = stored_number engine (fInterviews f),
      Database = stored_number engine (fDatabase f),
      Database_Converted = stored_number engine (fDatabase_Converted f)\<rparr>"

definition bulk_insert_timesheets ::
  "Engine \<Rightarrow> FormattedRecord list \<Rightarrow> TimesheetRecord list
     \<Rightarrow> string + (nat \<times> TimesheetRecord list)" where
  \<comment> \<open>\<open>LOAD DATA LOCAL INFILE\<close> in one transaction; when it raises, the fallback
      \<open>to_sql\<close>, whose exception is the one that leaves the function\<close>
  "bulk_insert_timesheets engine df tbl =
     (if df = [] then Inr (0, tbl)
      else case load_data_exc engine of
             None \<Rightarrow> Inr (length df, tbl @ map (stored_record engine) df)
           | Some _ \<Rightarrow>
               (case to_sql_exc engine of
                  None \<Rightarrow> Inr (length df, tbl @ map (stored_record engine) df)
                | Some exc \<Rightarrow> Inl exc))"

definition set_status :: "key_params \<Rightarrow> string option \<Rightarrow> TimesheetRecord \<Rightarrow> TimesheetRecord" where
  \<comment> \<open>one execution of \<open>UPDATE ... SET Status = :status WHERE ...\<close> on one row\<close>
  "set_status p st t = (if key_matches p t then t\<lparr>Status := st\<rparr> else t)"

definition update_status_records ::
  "Engine \<Rightarrow> StatusRecord list \<Rightarrow> TimesheetRecord list
     \<Rightarrow> string + (nat \<times> TimesheetRecord list)" where
  "update_status_records engine updates tbl =
     (if updates = [] then Inr (0, tbl)
      else case update_exc engine of
             Some exc \<Rightarrow> Inl exc
           | None \<Rightarrow>
               Inr (length updates,
                    foldl (\<lambda>tb u. map (set_status (key_values u) (Status u)) tb) tbl updates))"

subsection \<open>Store-side deduplicator\<close>

record DateWindow =
  window_start :: "nat \<times> nat \<times> nat"
  window_end :: "nat \<times> nat \<times> nat"
  description :: string

record DeduplicationStats =
  total_rows_before :: int
  total_rows_after :: int
  duplicates_removed :: int
  dedup_errors :: "string list"

definition midnight :: "nat \<times> nat \<times> nat \<Rightarrow> timestamp" where
  "midnight d = (case d of (y, m, dd) \<Rightarrow> (y, m, dd, 0))"

definition in_window :: "DateWindow option \<Rightarrow> TimesheetRecord \<Rightarrow> bool" where
  \<comment> \<open>\<open>WHERE Date >= :start AND Date <= :end\<close>, or no condition without a window\<close>
  "in_window w t =
     (case w of
        None \<Rightarrow> True
      | Some win \<Rightarrow>
          (case Date t of
             None \<Rightarrow> False
           | Some d \<Rightarrow> midnight (window_start win) \<le> d \<and> d \<le> midnight (window_end win)))"

definition partition_key ::
  "TimesheetRecord \<Rightarrow> (nat \<times> nat \<times> nat) option \<times> string option \<times> string option" where
  \<comment> \<open>\<open>PARTITION BY DATE(Date), Employee_Name, Project_ID\<close>; nulls fall in one group\<close>
  "partition_key t = (sql_date (Date t), Employee_Name t, Project_ID t)"

definition rank_order_key :: "TimesheetRecord \<Rightarrow> timestamp option \<times> rat \<times> string" where
  \<comment> \<open>\<open>ORDER BY Date, COALESCE(Working_Hours, 0), COALESCE(Status, '')\<close>\<close>
  "rank_order_key t =
     (Date t,
      (case Working_Hours t of None \<Rightarrow> 0 | Some h \<Rightarrow> h),
      (case Status t of None \<Rightarrow> [] | Some s \<Rightarrow> s))"

definition ranked_partition :: "TimesheetRecord list \<Rightarrow> (TimesheetRecord \<times> nat) list" where
  \<comment> \<open>\<open>ROW_NUMBER()\<close> over one partition in descending order; rows that tie on the
      whole ordering are numbered in some order by SQL, here latest stored first\<close>
  "ranked_partition part =
     zip (rev (sort_key rank_order_key part)) [1 ..< Suc (length part)]"

definition temp_dedup_keys ::
  "TimesheetRecord list \<Rightarrow> (timestamp option \<times> string option \<times> string option \<times> nat) list" where
  \<comment> \<open>the temporary table: Date, Employee_Name, Project_ID and rn of every row in scope\<close>
  "temp_dedup_keys scoped =
     concat (map (\<lambda>k. map (\<lambda>(t, rn). (Date t, Employee_Name t, Project_ID t, rn))
                        (ranked_partition (filter (\<lambda>t. partition_key t = k) scoped)))
               (remdups (map partition_key scoped)))"

definition joins_duplicate ::
  "(timestamp option \<times> string option \<times> string option \<times> nat) list \<Rightarrow> TimesheetRecord \<Rightarrow> bool" where
  \<comment> \<open>the join condition of \<open>DELETE t FROM ... INNER JOIN temp_dedup_keys d ON
      DATE(t.Date) = DATE(d.Date) AND t.Employee_Name = d.Employee_Name AND
      t.Project_ID = d.Project_ID AND d.rn > 1\<close>\<close>
  "joins_duplicate temp t =
     list_ex (\<lambda>d. case d of (dd, de, dp, rn) \<Rightarrow>
                sql_eq (sql_date (Date t)) (sql_date dd) \<and> sql_eq (Employee_Name t) de
                  \<and> sql_eq (Project_ID t) dp \<and> 1 < rn) temp"

definition dedup_raises :: "Engine \<Rightarrow> nat \<Rightarrow> string option" where
  "dedup_raises engine n =
     (case dedup_exc engine of
        None \<Rightarrow> None
      | Some (k, exc) \<Rightarrow> if k = n then Some exc else None)"

definition dedup_error :: "DeduplicationStats \<Rightarrow> string \<Rightarrow> DeduplicationStats" where
  "dedup_error stats exc =
     stats\<lparr>dedup_errors := dedup_errors stats @ [''Error during SQL deduplication: '' @ exc]\<rparr>"

definition deduplicate_table_sql ::
  "Engine \<Rightarrow> DateWindow option \<Rightarrow> TimesheetRecord list
     \<Rightarrow> DeduplicationStats \<times> TimesheetRecord list" where
  \<comment> \<open>Statements in execution order: 0 count before, 1 create the temporary table,
      2 count duplicates, 3 delete (or drop the temporary table when there is nothing to
      delete), 4 drop the temporary table. The result is the statistics and the table.\<close>
  "deduplicate_table_sql engine window tbl =
     (let stats = \<lparr>total_rows_before = 0, total_rows_after = 0, duplicates_removed = 0,
                   dedup_errors = []\<rparr>;
          scoped = filter (in_window window) tbl
      in case dedup_raises engine 0 of
           Some exc \<Rightarrow> (dedup_error stats exc, tbl)
         | None \<Rightarrow>
       (let stats = stats\<lparr>total_rows_before := int (length scoped)\<rparr>
        in if total_rows_before stats = 0 then (stats, tbl)
           else case dedup_raises engine 1 of
                  Some exc \<Rightarrow> (dedup_error stats exc, tbl)
                | None \<Rightarrow>
          (let temp = temp_dedup_keys scoped
           in case dedup_raises engine 2 of
                Some exc \<Rightarrow> (dedup_error stats exc, tbl)
              | None \<Rightarrow>
             (let stats = stats\<lparr>duplicates_removed :=
                                   int (length (filter (\<lambda>d. 1 < snd (snd (snd d))) temp))\<rparr>
              in if duplicates_removed stats = 0
                 then (case dedup_raises engine 3 of
                         Some exc \<Rightarrow>
                           (dedup_error (stats\<lparr>total_rows_after := total_rows_before stats\<rparr>) exc,
                            tbl)
                       | None \<Rightarrow> (stats\<lparr>total_rows_after := total_rows_before stats\<rparr>, tbl))
                 else case dedup_raises engine 3 of
                        Some exc \<Rightarrow> (dedup_error stats exc, tbl)
                      | None \<Rightarrow>
                   (let tbl' = filter (\<lambda>t. \<not> joins_duplicate temp t) tbl
                    in case dedup_raises engine 4 of
                         Some exc \<Rightarrow> (dedup_error stats exc, tbl)
                       | None \<Rightarrow>
                           (stats\<lparr>total_rows_after :=
                                     total_rows_before stats - duplicates_removed stats\<rparr>,
                            tbl'))))))"

subsection \<open>Reconciliation planner\<close>

record ProcessingStats =
  inserted :: int
  updated :: int
  skipped :: int
  errors :: "string list"

record StatusStats =
  status_updated :: int
  status_inserted :: int
  status_errors :: "string list"

text \<open>
  The caller's \<open>existing_records\<close> frame: its rows and the two derived columns, present
  once something has assigned them. An operation returns what the caller sees afterwards:
  the statistics, both input frames and the table.
\<close>

record ExistingFrame =
  existing_rows :: "TimesheetRecord list"
  simple_key_column :: "string list option"
  signature_column :: "string list option"

record ('s, 'n) Outcome =
  out_stats :: 's
  out_new_records :: "'n list"
  out_existing_records :: ExistingFrame
  out_table :: "TimesheetRecord list"

definition keyable :: "'a KeyColumns_scheme \<Rightarrow> bool" where
  \<comment> \<open>survives \<open>dropna(subset=["Date", "Employee_Name", "Project_ID"])\<close>\<close>
  "keyable r = (Date r \<noteq> None \<and> Employee_Name r \<noteq> None \<and> Project_ID r \<noteq> None)"

definition na_last :: "'a option \<Rightarrow> bool \<times> 'a option" where
  \<comment> \<open>a sort key that puts missing values last (\<open>na_position="last"\<close>)\<close>
  "na_last v = (v = None, v)"

definition sorted_existing :: "TimesheetRecord list \<Rightarrow> TimesheetRecord list" where
  \<comment> \<open>\<open>sort_values(["simple_key", "Date"], ascending=[True, True], na_position="last")\<close>;
      the sort on several columns is stable\<close>
  "sorted_existing rows = sort_key (\<lambda>r. (simple_key r, na_last (Date r))) rows"

definition existing_map :: "PythonText \<Rightarrow> TimesheetRecord list \<Rightarrow> (string \<times> string) list" where
  \<comment> \<open>\<open>.drop_duplicates(subset=["simple_key"], keep="last").set_index("simple_key")["signature"]\<close>\<close>
  "existing_map py rows =
     map (\<lambda>r. (simple_key r, signature py r)) (drop_duplicates_last simple_key (sorted_existing rows))"

definition existing_signature :: "PythonText \<Rightarrow> TimesheetRecord list \<Rightarrow> TimesheetRecord \<Rightarrow> string option" where
  \<comment> \<open>\<open>working["simple_key"].map(existing_map)\<close>, and \<open>pd.NA\<close> when nothing exists\<close>
  "existing_signature py rows w =
     (if rows \<noteq> [] then map_of (existing_map py rows) (simple_key w) else None)"

definition working_timesheets :: "TimesheetRecord list \<Rightarrow> TimesheetRecord list" where
  "working_timesheets new_records = filter keyable new_records"

definition to_insert :: "PythonText \<Rightarrow> TimesheetRecord list \<Rightarrow> TimesheetRecord list \<Rightarrow> TimesheetRecord list" where
  "to_insert py rows working = filter (\<lambda>w. existing_signature py rows w = None) working"

definition to_update :: "PythonText \<Rightarrow> TimesheetRecord list \<Rightarrow> TimesheetRecord list \<Rightarrow> TimesheetRecord list" where
  "to_update py rows working =
     filter (\<lambda>w. existing_signature py rows w \<noteq> None \<and> existing_signature py rows w \<noteq> Some (signature py w))
       working"

definition delete_keys :: "TimesheetRecord list \<Rightarrow> key_params list" where
  \<comment> \<open>\<open>to_update[["Date", "Employee_Name", "Project_ID"]].drop_duplicates()\<close>\<close>
  "delete_keys upd = drop_duplicates_first id (map key_values upd)"

definition with_keys :: "PythonText \<Rightarrow> ExistingFrame \<Rightarrow> ExistingFrame" where
  \<comment> \<open>the two column assignments on the caller's frame\<close>
  "with_keys py ex =
     ex\<lparr>simple_key_column := Some (build_simple_key (existing_rows ex)),
        signature_column := Some (build_signature py (existing_rows ex))\<rparr>"

definition timesheet_error :: "ProcessingStats \<Rightarrow> string \<Rightarrow> ProcessingStats" where
  "timesheet_error stats exc =
     stats\<lparr>errors := errors stats @ [''Error inserting or updating timesheet data: '' @ exc]\<rparr>"

definition apply_timesheet_changes ::
  "PythonText \<Rightarrow> Engine \<Rightarrow> TimesheetRecord list \<Rightarrow> TimesheetRecord list \<Rightarrow> ProcessingStats
     \<Rightarrow> TimesheetRecord list \<Rightarrow> ProcessingStats \<times> TimesheetRecord list" where
  \<comment> \<open>the \<open>try\<close> block and its \<open>except Exception\<close>: the statistics and the table it leaves\<close>
  "apply_timesheet_changes py engine ins upd stats tbl =
     (case (if upd \<noteq> [] then delete_timesheet_records engine (delete_keys upd) tbl
            else Inr tbl) of
        Inl exc \<Rightarrow> (timesheet_error stats exc, tbl)
      | Inr tbl1 \<Rightarrow>
         (let stats1 = (if upd \<noteq> [] then stats\<lparr>updated := int (length upd)\<rparr> else stats);
              stats2 = (if ins \<noteq> [] then stats1\<lparr>inserted := int (length ins)\<rparr> else stats1);
              frames_to_insert = (if ins \<noteq> [] then [ins] else [])
                                   @ (if upd \<noteq> [] then [upd] else [])
          in if frames_to_insert = [] then (stats2, tbl1)
             else
            (case bulk_insert_timesheets engine
                    (prepare_timesheet_for_insert py (concat frames_to_insert)) tbl1 of
               Inl exc \<Rightarrow> (timesheet_error stats2 exc, tbl1)
             | Inr (n, tbl2) \<Rightarrow> (stats2, tbl2))))"

definition process_timesheet_changes ::
  "PythonText \<Rightarrow> TimesheetRecord list \<Rightarrow> ExistingFrame \<Rightarrow> Engine \<Rightarrow> TimesheetRecord list
     \<Rightarrow> (ProcessingStats, TimesheetRecord) Outcome" where
  "process_timesheet_changes py new_records existing_records engine tbl =
     (let stats = \<lparr>inserted = 0, updated = 0, skipped = 0, errors = []\<rparr>;
          result = (\<lambda>st ex tb. \<lparr>out_stats = st, out_new_records = new_records,
                                 out_existing_records = ex, out_table = tb\<rparr>)
      in if new_records = [] then result stats existing_records tbl
         else
       (let working = working_timesheets new_records
        in if working = []
           then result (stats\<lparr>errors := errors stats
                          @ [''No valid timesheet rows remained after cleaning.'']\<rparr>)
                  existing_records tbl
           else
          (let existing' = (if existing_rows existing_records \<noteq> [] then with_keys py existing_records
                            else existing_records);
               ins = to_insert py (existing_rows existing_records) working;
               upd = to_update py (existing_rows existing_records) working;
               stats = stats\<lparr>skipped := int (length working) - int (length ins) - int (length upd)\<rparr>
           in if ins = [] \<and> upd = [] then result stats existing' tbl
              else (case apply_timesheet_changes py engine ins upd stats tbl of
                      (stats', tbl') \<Rightarrow> result stats' existing' tbl'))))"

subsection \<open>Status-only reconciliation\<close>

definition cleaned_status :: "StatusRecord \<Rightarrow> StatusRecord" where
  \<comment> \<open>\<open>working["Status"] = _clean_status_values(working["Status"])\<close>\<close>
  "cleaned_status r = r\<lparr>Status := Some (clean_status_value (Status r))\<rparr>"

definition sorted_statuses :: "StatusRecord list \<Rightarrow> StatusRecord list" where
  \<comment> \<open>\<open>sort_values(["Date", "Employee_Name", "Project_ID"])\<close>\<close>
  "sorted_statuses rows =
     sort_key (\<lambda>r. (na_last (Date r), na_last (Employee_Name r), na_last (Project_ID r))) rows"

definition working_statuses :: "StatusRecord list \<Rightarrow> StatusRecord list" where
  \<comment> \<open>the working set: keyable, status cleaned and meaningful, sorted, one row per
      \<open>STATUS_DEDUP_COLUMNS\<close> tuple keeping the last\<close>
  "working_statuses status_df =
     drop_duplicates_last key_values
       (sorted_statuses
          (filter (\<lambda>r. Status r \<noteq> Some []) (map cleaned_status (filter keyable status_df))))"

definition status_map :: "TimesheetRecord list \<Rightarrow> (string \<times> string) list" where
  \<comment> \<open>\<open>.drop_duplicates(subset=["simple_key"], keep="last").set_index("simple_key")["Status"].fillna("")\<close>\<close>
  "status_map rows =
     map (\<lambda>r. (simple_key r, (case Status r of None \<Rightarrow> [] | Some s \<Rightarrow> s)))
       (drop_duplicates_last simple_key rows)"

definition existing_status :: "TimesheetRecord list \<Rightarrow> StatusRecord \<Rightarrow> string" where
  \<comment> \<open>\<open>_clean_status_values(working["simple_key"].map(status_map).fillna(""))\<close>, and \<open>""\<close>
      when nothing exists\<close>
  "existing_status rows w =
     (if rows \<noteq> []
      then clean_status_value
             (Some (case map_of (status_map rows) (simple_key w) of None \<Rightarrow> [] | Some s \<Rightarrow> s))
      else [])"

definition folded :: "string \<Rightarrow> string" where
  \<comment> \<open>\<open>.astype(str).str.strip().str.lower()\<close>\<close>
  "folded s = py_lower (py_strip s)"

definition status_text :: "StatusRecord \<Rightarrow> string" where
  "status_text r = (case Status r of None \<Rightarrow> [] | Some s \<Rightarrow> s)"

definition status_updates :: "TimesheetRecord list \<Rightarrow> StatusRecord list \<Rightarrow> StatusRecord list" where
  "status_updates rows working =
     filter (\<lambda>w. folded (existing_status rows w) \<noteq> folded (status_text w))
       (filter (\<lambda>w. existing_status rows w \<noteq> []) working)"

definition status_inserts :: "TimesheetRecord list \<Rightarrow> StatusRecord list \<Rightarrow> StatusRecord list" where
  "status_inserts rows working = filter (\<lambda>w. existing_status rows w = []) working"

definition insert_payload :: "StatusRecord \<Rightarrow> TimesheetRecord" where
  \<comment> \<open>a bare status row: every other timesheet column is \<open>None\<close>\<close>
  "insert_payload w =
     \<lparr>Date = Date w, Employee_Name = Employee_Name w, Project_ID = Project_ID w,
      Status = Status w, Employee_Role = None, Office_Location = None, Project_Name = None,
      Working_Hours = None, Interviews = None, Database = None, Database_Converted = None\<rparr>"

definition with_simple_key :: "ExistingFrame \<Rightarrow> ExistingFrame" where
  "with_simple_key ex = ex\<lparr>simple_key_column := Some (build_simple_key (existing_rows ex))\<rparr>"

definition status_error :: "StatusStats \<Rightarrow> string \<Rightarrow> StatusStats" where
  "status_error stats exc =
     stats\<lparr>status_errors := status_errors stats @ [''Error updating status information: '' @ exc]\<rparr>"

definition apply_status_changes ::
  "PythonText \<Rightarrow> Engine \<Rightarrow> StatusRecord list \<Rightarrow> StatusRecord list \<Rightarrow> StatusStats
     \<Rightarrow> TimesheetRecord list \<Rightarrow> StatusStats \<times> TimesheetRecord list" where
  \<comment> \<open>the \<open>try\<close> block and its \<open>except Exception\<close>\<close>
  "apply_status_changes py engine updates inserts stats tbl =
     (case (if updates \<noteq> [] then update_status_records engine updates tbl
            else Inr (0, tbl)) of
        Inl exc \<Rightarrow> (status_error stats exc, tbl)
      | Inr (num_updated, tbl1) \<Rightarrow>
         (let stats1 = (if updates \<noteq> [] then stats\<lparr>status_updated := int num_updated\<rparr>
                        else stats)
          in if inserts = [] then (stats1, tbl1)
             else
            (case bulk_insert_timesheets engine
                    (format_for_mysql py
                       (enforce_hours_status_rule (map insert_payload inserts))) tbl1 of
               Inl exc \<Rightarrow> (status_error stats1 exc, tbl1)
             | Inr (n, tbl2) \<Rightarrow> (stats1\<lparr>status_inserted := int (length inserts)\<rparr>, tbl2))))"

definition process_status_updates ::
  "PythonText \<Rightarrow> StatusRecord list \<Rightarrow> ExistingFrame \<Rightarrow> Engine \<Rightarrow> TimesheetRecord list
     \<Rightarrow> (StatusStats, StatusRecord) Outcome" where
  "process_status_updates py status_df existing_records engine tbl =
     (let stats = \<lparr>status_updated = 0, status_inserted = 0, status_errors = []\<rparr>;
          result = (\<lambda>st ex tb. \<lparr>out_stats = st, out_new_records = status_df,
                                 out_existing_records = ex, out_table = tb\<rparr>)
      in if status_df = [] then result stats existing_records tbl
         else if filter keyable status_df = [] then result stats existing_records tbl
         else if filter (\<lambda>r. Status r \<noteq> Some []) (map cleaned_status (filter keyable status_df)) = []
         then result stats existing_records tbl
         else
       (let working = working_statuses status_df;
            existing' = (if existing_rows existing_records \<noteq> []
                         then with_simple_key existing_records else existing_records);
            updates = status_updates (existing_rows existing_records) working;
            inserts = status_inserts (existing_rows existing_records) working
        in case apply_status_changes py engine updates inserts stats tbl of
             (stats', tbl') \<Rightarrow> result stats' existing' tbl'))"

subsection \<open>Notions used in the statements\<close>

definition no_outer_space :: "string \<Rightarrow> bool" where
  \<comment> \<open>a string that neither starts nor ends with whitespace\<close>
  "no_outer_space s = (s = [] \<or> (\<not> py_isspace (hd s) \<and> \<not> py_isspace (last s)))"

definition status_of :: "'a StatusRecord_scheme \<Rightarrow> string" where
  \<comment> \<open>the status cell with a missing value read as the empty string\<close>
  "status_of r = (case Status r of None \<Rightarrow> [] | Some s \<Rightarrow> s)"

definition planned_inserts :: "PythonText \<Rightarrow> TimesheetRecord list \<Rightarrow> ExistingFrame \<Rightarrow> TimesheetRecord list" where
  \<comment> \<open>the insert class of a run\<close>
  "planned_inserts py new_records existing_records =
     to_insert py (existing_rows existing_records) (working_timesheets new_records)"

definition planned_updates :: "PythonText \<Rightarrow> TimesheetRecord list \<Rightarrow> ExistingFrame \<Rightarrow> TimesheetRecord list" where
  \<comment> \<open>the update class of a run\<close>
  "planned_updates py new_records existing_records =
     to_update py (existing_rows existing_records) (working_timesheets new_records)"

definition initial_stats :: "PythonText \<Rightarrow> TimesheetRecord list \<Rightarrow> ExistingFrame \<Rightarrow> ProcessingStats" where
  \<comment> \<open>the statistics on entry to the \<open>try\<close> block\<close>
  "initial_stats py new_records existing_records =
     \<lparr>inserted = 0, updated = 0,
      skipped = int (length (working_timesheets new_records))
                  - int (length (planned_inserts py new_records existing_records))
                  - int (length (planned_updates py new_records existing_records)),
      errors = []\<rparr>"

definition counted ::
  "TimesheetRecord list \<Rightarrow> TimesheetRecord list \<Rightarrow> ProcessingStats \<Rightarrow> ProcessingStats" where
  \<comment> \<open>the statistics once both counts have been assigned\<close>
  "counted ins upd stats =
     (let stats1 = (if upd \<noteq> [] then stats\<lparr>updated := int (length upd)\<rparr> else stats)
      in if ins \<noteq> [] then stats1\<lparr>inserted := int (length ins)\<rparr> else stats1)"

definition after_delete ::
  "Engine \<Rightarrow> TimesheetRecord list \<Rightarrow> TimesheetRecord list \<Rightarrow> string + TimesheetRecord list" where
  \<comment> \<open>the delete step of the \<open>try\<close> block: skipped when nothing is to update\<close>
  "after_delete engine upd tbl =
     (if upd \<noteq> [] then delete_timesheet_records engine (delete_keys upd) tbl else Inr tbl)"

definition rows_after_delete :: "TimesheetRecord list \<Rightarrow> TimesheetRecord list \<Rightarrow> TimesheetRecord list" where
  \<comment> \<open>the table once the old versions of the update class are deleted\<close>
  "rows_after_delete upd tbl =
     filter (\<lambda>t. \<not> list_ex (\<lambda>p. key_matches p t) (delete_keys upd)) tbl"

definition payload_rows :: "PythonText \<Rightarrow> Engine \<Rightarrow> TimesheetRecord list \<Rightarrow> TimesheetRecord list \<Rightarrow> TimesheetRecord list" where
  \<comment> \<open>the rows the bulk insert appends for the two classes\<close>
  "payload_rows py engine ins upd = map (stored_record engine) (prepare_timesheet_for_insert py (ins @ upd))"

definition insert_raises :: "Engine \<Rightarrow> string option" where
  \<comment> \<open>the exception that leaves \<open>bulk_insert_timesheets\<close> on a non-empty payload\<close>
  "insert_raises engine =
     (case load_data_exc engine of None \<Rightarrow> None | Some _ \<Rightarrow> to_sql_exc engine)"

definition meaningful_rows :: "StatusRecord list \<Rightarrow> StatusRecord list" where
  \<comment> \<open>the status rows left after the key and status cleaning, before the sort\<close>
  "meaningful_rows status_df =
     filter (\<lambda>r. Status r \<noteq> Some []) (map cleaned_status (filter keyable status_df))"

definition planned_status_updates :: "StatusRecord list \<Rightarrow> ExistingFrame \<Rightarrow> StatusRecord list" where
  "planned_status_updates status_df existing_records =
     status_updates (existing_rows existing_records) (working_statuses status_df)"

definition planned_status_inserts :: "StatusRecord list \<Rightarrow> ExistingFrame \<Rightarrow> StatusRecord list" where
  "planned_status_inserts status_df existing_records =
     status_inserts (existing_rows existing_records) (working_statuses status_df)"

definition status_payload :: "PythonText \<Rightarrow> StatusRecord list \<Rightarrow> FormattedRecord list" where
  \<comment> \<open>the formatted bare status rows handed to the bulk insert\<close>
  "status_payload py inserts =
     format_for_mysql py (enforce_hours_status_rule (map insert_payload inserts))"

definition rows_after_update :: "StatusRecord list \<Rightarrow> TimesheetRecord list \<Rightarrow> TimesheetRecord list" where
  \<comment> \<open>the table once every status update has run, in order\<close>
  "rows_after_update updates tbl =
     foldl (\<lambda>tb u. map (set_status (key_values u) (Status u)) tb) tbl updates"

definition status_counted :: "StatusRecord list \<Rightarrow> StatusStats \<Rightarrow> StatusStats" where
  "status_counted updates stats =
     (if updates \<noteq> [] then stats\<lparr>status_updated := int (length updates)\<rparr> else stats)"

subsection \<open>Worked inputs\<close>

definition example_frame :: "nat frame" where
  \<comment> \<open>columns k and v; the first and the third row share k\<close>
  "example_frame =
     \<lparr>frame_columns = [''k'', ''v''],
      frame_rows = [(\<lambda>c. if c = ''k'' then 1 else if c = ''v'' then 10 else 0),
                    (\<lambda>c. if c = ''k'' then 2 else if c = ''v'' then 20 else 0),
                    (\<lambda>c. if c = ''k'' then 1 else if c = ''v'' then 30 else 0)]\<rparr>"

definition example_python :: PythonText where
  \<comment> \<open>what Python prints for the float64 cells of the worked inputs\<close>
  "example_python =
     \<lparr>str_number = (\<lambda>x. if x = 8 then ''8.0'' else if x = 6 then ''6.0'' else ''0.0''),
      fixed2_number = (\<lambda>x. if x = 8 then ''8.00'' else if x = 6 then ''6.00'' else ''0.00'')\<rparr>"

definition example_read_number :: "string \<Rightarrow> rat option" where
  \<comment> \<open>the numbers the store reads for the numeric fields of the worked inputs\<close>
  "example_read_number s =
     (if s = ''8'' then Some 8 else if s = ''6'' then Some 6 else if s = ''0'' then Some 0
      else None)"

definition healthy_engine :: Engine where
  \<comment> \<open>an engine on which no statement raises\<close>
  "healthy_engine =
     \<lparr>delete_exc = None, load_data_exc = None, to_sql_exc = None, update_exc = None,
      dedup_exc = None, read_number = example_read_number\<rparr>"

definition alice :: "rat option \<Rightarrow> string option \<Rightarrow> TimesheetRecord" where
  \<comment> \<open>the row (2025-01-01, Alice, P1) with the given hours and status, other cells missing\<close>
  "alice h st =
     \<lparr>Date = Some (2025, 1, 1, 0), Employee_Name = Some ''Alice'', Project_ID = Some ''P1'',
      Status = st, Employee_Role = None, Office_Location = None, Project_Name = None,
      Working_Hours = h, Interviews = None, Database = None, Database_Converted = None\<rparr>"

definition failing_delete :: Engine where
  \<comment> \<open>an engine whose delete statement raises\<close>
  "failing_delete = healthy_engine\<lparr>delete_exc := Some ''connection lost''\<rparr>"

definition failing_insert :: Engine where
  \<comment> \<open>an engine on which the bulk load and its fallback both raise\<close>
  "failing_insert =
     healthy_engine\<lparr>load_data_exc := Some ''local infile disabled'',
                      to_sql_exc := Some ''connection lost''\<rparr>"

definition fresh_frame :: "TimesheetRecord list \<Rightarrow> ExistingFrame" where
  \<comment> \<open>a snapshot as \<open>fetch_existing_timesheets\<close> returns it: rows only\<close>
  "fresh_frame rows = \<lparr>existing_rows = rows, simple_key_column = None, signature_column = None\<rparr>"


definition alice_status :: "string option \<Rightarrow> StatusRecord" where
  \<comment> \<open>the status row (2025-01-01, Alice, P1) with the given status\<close>
  "alice_status st =
     \<lparr>Date = Some (2025, 1, 1, 0), Employee_Name = Some ''Alice'', Project_ID = Some ''P1'',
      Status = st\<rparr>"

definition failing_update :: Engine where
  \<comment> \<open>an engine whose status update statement raises\<close>
  "failing_update = healthy_engine\<lparr>update_exc := Some ''lock wait timeout''\<rparr>"

section \<open>The in-memory deduplicator\<close>

lemma set_drop_duplicates_last:
  "set (map f (drop_duplicates_last f xs)) = set (map f xs)"
  by (induction xs) auto

lemma drop_duplicates_last_subset:
  "set (drop_duplicates_last f xs) \<subseteq> set xs"
  by (induction xs) auto

lemma distinct_drop_duplicates_last:
  "distinct (map f (drop_duplicates_last f xs))"
proof (induction xs)
  case Nil
  then show ?case by simp
next
  case (Cons x xs)
  have "f x \<notin> set (map f xs) \<Longrightarrow> f x \<notin> set (map f (drop_duplicates_last f xs))"
    using set_drop_duplicates_last [of f xs] by simp
  with Cons show ?case by simp
qed

lemma keeps_last_offset:
  "map snd (filter (\<lambda>(i, y). f y \<notin> set (map f (drop (Suc i - n) xs))) (enumerate n xs))
     = drop_duplicates_last f xs"
proof (induction xs arbitrary: n)
  case Nil
  then show ?case by simp
next
  case (Cons x xs)
  have tl: "filter (\<lambda>(i, y). f y \<notin> set (map f (drop (Suc i - n) (x # xs)))) (enumerate (Suc n) xs)
      = filter (\<lambda>(i, y). f y \<notin> set (map f (drop (Suc i - Suc n) xs))) (enumerate (Suc n) xs)"
  proof (rule filter_cong [OF refl])
    fix p assume "p \<in> set (enumerate (Suc n) xs)"
    then have "Suc n \<le> fst p" by (auto simp: in_set_enumerate_eq)
    then have "Suc (fst p) - n = Suc (fst p - n)" "Suc (fst p) - Suc n = fst p - n" by arith+
    then show "(case p of (i, y) \<Rightarrow> f y \<notin> set (map f (drop (Suc i - n) (x # xs))))
        = (case p of (i, y) \<Rightarrow> f y \<notin> set (map f (drop (Suc i - Suc n) xs)))"
      by (cases p) simp
  qed
  have hd: "enumerate n (x # xs) = (n, x) # enumerate (Suc n) xs" by simp
  have first: "drop (Suc n - n) (x # xs) = xs" by simp
  show ?case
    unfolding hd filter.simps tl
    by (simp only: first Cons.IH [of "Suc n"] prod.case drop_duplicates_last.simps
          list.map snd_conv split: if_splits) simp
qed

lemma drop_duplicates_last_spec:
  "drop_duplicates_last f xs = keeps_last_occurrences f xs"
  using keeps_last_offset [of f 0 xs] by (simp add: keeps_last_occurrences_def)

lemma single_match:
  "distinct (map f ys) \<Longrightarrow> k \<in> set (map f ys) \<Longrightarrow> length (filter (\<lambda>q. f q = k) ys) = 1"
proof (induction ys)
  case Nil
  then show ?case by simp
next
  case (Cons y ys)
  show ?case
  proof (cases "f y = k")
    case True
    with Cons.prems have "\<forall>q \<in> set ys. f q \<noteq> k" by (auto simp: image_iff)
    then have "filter (\<lambda>q. f q = k) ys = []" by (simp add: filter_empty_conv)
    with True show ?thesis by simp
  next
    case False
    with Cons show ?thesis by auto
  qed
qed

text \<open>
  C7. For every batch and every list of identity columns, the in-memory deduplicator
  returns the rows whose identity tuple no later row has: the last occurrence of each
  tuple, in input order, so no two returned rows share a tuple; the schema is kept. When
  none of the requested columns is in the schema, the batch comes back unchanged.
\<close>

theorem deduplicate_dataframe_keeps_last:
  "(usable_columns df subset_cols \<noteq> [] \<longrightarrow>
      frame_rows (deduplicate_dataframe df subset_cols)
        = keeps_last_occurrences (project (usable_columns df subset_cols)) (frame_rows df)
      \<and> distinct (map (project (usable_columns df subset_cols))
                    (frame_rows (deduplicate_dataframe df subset_cols)))
      \<and> frame_columns (deduplicate_dataframe df subset_cols) = frame_columns df)
   \<and> (usable_columns df subset_cols = [] \<longrightarrow> deduplicate_dataframe df subset_cols = df)"
proof (intro conjI impI)
  assume u: "usable_columns df subset_cols \<noteq> []"
  show rows: "frame_rows (deduplicate_dataframe df subset_cols)
        = keeps_last_occurrences (project (usable_columns df subset_cols)) (frame_rows df)"
  proof (cases "frame_rows df = []")
    case True
    then show ?thesis
      by (simp add: deduplicate_dataframe_def frame_empty_def keeps_last_occurrences_def)
  next
    case False
    from u have "frame_columns df \<noteq> []"
      by (auto simp: usable_columns_def filter_empty_conv)
    with False u show ?thesis
      by (simp add: deduplicate_dataframe_def frame_empty_def drop_duplicates_last_spec)
  qed
  show "distinct (map (project (usable_columns df subset_cols))
                    (frame_rows (deduplicate_dataframe df subset_cols)))"
    unfolding rows drop_duplicates_last_spec [symmetric]
    by (rule distinct_drop_duplicates_last)
  show "frame_columns (deduplicate_dataframe df subset_cols) = frame_columns df"
    by (simp add: deduplicate_dataframe_def)
next
  assume "usable_columns df subset_cols = []"
  then show "deduplicate_dataframe df subset_cols = df"
    by (simp add: deduplicate_dataframe_def)
qed

theorem deduplicate_dataframe_keeps_last_witness:
  "usable_columns example_frame [''k''] \<noteq> []
   \<and> map (\<lambda>r. r ''v'') (frame_rows (deduplicate_dataframe example_frame [''k''])) = [20, 30]
   \<and> usable_columns example_frame [''zz''] = []
   \<and> deduplicate_dataframe example_frame [''zz''] = example_frame"
proof -
  have present: "usable_columns example_frame [''k''] = [''k'']"
    by (simp add: usable_columns_def example_frame_def)
  have absent: "usable_columns example_frame [''zz''] = []"
    by (simp add: usable_columns_def example_frame_def)
  have "frame_rows (deduplicate_dataframe example_frame [''k''])
      = keeps_last_occurrences (project [''k'']) (frame_rows example_frame)"
    using deduplicate_dataframe_keeps_last [of example_frame "[''k'']"] present by simp
  then have "map (\<lambda>r. r ''v'') (frame_rows (deduplicate_dataframe example_frame [''k''])) = [20, 30]"
    by (simp add: keeps_last_occurrences_def example_frame_def project_def enumerate_eq_zip
          upt_conv_Cons)
  moreover have "deduplicate_dataframe example_frame [''zz''] = example_frame"
    using deduplicate_dataframe_keeps_last [of example_frame "[''zz'']"] absent by simp
  ultimately show ?thesis using present absent by simp
qed

text \<open>
  C10. When some but not all of the requested identity columns are in the schema, the
  deduplicator works on exactly the requested columns that are present, keeping the last
  occurrence: every row of the input, whatever it holds outside those columns, is
  represented by exactly one row of the output with the same cells in them.
\<close>

theorem deduplicate_dataframe_partial_columns:
  assumes "usable_columns df subset_cols \<noteq> []"
    and "usable_columns df subset_cols \<noteq> subset_cols"
  shows "frame_rows (deduplicate_dataframe df subset_cols)
           = keeps_last_occurrences (project (usable_columns df subset_cols)) (frame_rows df)
         \<and> (\<forall>r \<in> set (frame_rows df).
               length (filter (\<lambda>q. project (usable_columns df subset_cols) q
                                       = project (usable_columns df subset_cols) r)
                         (frame_rows (deduplicate_dataframe df subset_cols))) = 1)"
proof (cases "frame_rows df = []")
  case True
  then show ?thesis
    by (simp add: deduplicate_dataframe_def frame_empty_def keeps_last_occurrences_def)
next
  case False
  let ?f = "project (usable_columns df subset_cols)"
  from assms(1) have "frame_columns df \<noteq> []"
    by (auto simp: usable_columns_def filter_empty_conv)
  with False assms(1) have rows:
    "frame_rows (deduplicate_dataframe df subset_cols) = drop_duplicates_last ?f (frame_rows df)"
    by (simp add: deduplicate_dataframe_def frame_empty_def)
  have one: "length (filter (\<lambda>q. ?f q = ?f r) (drop_duplicates_last ?f (frame_rows df))) = 1"
    if r: "r \<in> set (frame_rows df)" for r
  proof -
    from r have "?f r \<in> set (map ?f (drop_duplicates_last ?f (frame_rows df)))"
      by (simp only: set_drop_duplicates_last) simp
    from single_match [OF distinct_drop_duplicates_last this]
    show ?thesis .
  qed
  from rows one show ?thesis
    by (simp add: drop_duplicates_last_spec [symmetric])
qed

theorem deduplicate_dataframe_partial_columns_witness:
  "usable_columns example_frame [''k'', ''zz''] \<noteq> []
   \<and> usable_columns example_frame [''k'', ''zz''] \<noteq> [''k'', ''zz'']
   \<and> map (\<lambda>r. r ''v'') (frame_rows (deduplicate_dataframe example_frame [''k'', ''zz''])) = [20, 30]"
proof -
  have present: "usable_columns example_frame [''k'', ''zz''] = [''k'']"
    by (simp add: usable_columns_def example_frame_def)
  have "frame_rows (deduplicate_dataframe example_frame [''k'', ''zz''])
      = keeps_last_occurrences (project [''k'']) (frame_rows example_frame)"
    using deduplicate_dataframe_partial_columns [of example_frame "[''k'', ''zz'']"] present
    by simp
  then have "map (\<lambda>r. r ''v'') (frame_rows (deduplicate_dataframe example_frame [''k'', ''zz'']))
      = [20, 30]"
    by (simp add: keeps_last_occurrences_def example_frame_def project_def enumerate_eq_zip
          upt_conv_Cons)
  with present show ?thesis by simp
qed

section \<open>The store-side deduplicator\<close>

text \<open>
  C1. On the table holding exactly the rows (2025-01-01, Alice, P1, hours 8) and
  (2025-01-01, Alice, P1, hours 6), the store-side deduplicator ranks the hours-8 row
  first and counts one duplicate, but its delete statement joins on the identity alone,
  so it removes both rows: the table is left empty while the statistics report one row
  remaining.
\<close>

theorem deduplicate_table_sql_empties_group:
  "temp_dedup_keys [alice (Some 8) None, alice (Some 6) None]
     = [(Some (2025, 1, 1, 0), Some ''Alice'', Some ''P1'', 1),
        (Some (2025, 1, 1, 0), Some ''Alice'', Some ''P1'', 2)]
   \<and> deduplicate_table_sql healthy_engine None [alice (Some 8) None, alice (Some 6) None]
     = (\<lparr>total_rows_before = 2, total_rows_after = 1, duplicates_removed = 1,
         dedup_errors = []\<rparr>, [])"
  by code_simp

section \<open>The business rule normalizer\<close>

lemma dropWhile_hd: "dropWhile P xs \<noteq> [] \<Longrightarrow> \<not> P (hd (dropWhile P xs))"
  by (rule hd_dropWhile)

lemma last_dropWhile: "dropWhile P xs \<noteq> [] \<Longrightarrow> last (dropWhile P xs) = last xs"
  by (induction xs) (auto split: if_splits)

lemma no_outer_space_strip: "no_outer_space (py_strip s)"
proof (cases "py_strip s = []")
  case True
  then show ?thesis by (simp add: no_outer_space_def)
next
  case False
  let ?a = "dropWhile py_isspace s"
  let ?b = "dropWhile py_isspace (rev ?a)"
  from False have b: "?b \<noteq> []" by (simp add: py_strip_def)
  then have a: "?a \<noteq> []" by (cases "?a") auto
  have "last (py_strip s) = hd ?b" using b by (simp add: py_strip_def last_rev)
  moreover have "\<not> py_isspace (hd ?b)" using b by (rule hd_dropWhile)
  moreover have "hd (py_strip s) = last ?b" using b by (simp add: py_strip_def hd_rev)
  moreover have "last ?b = hd ?a" using b a by (simp add: last_dropWhile last_rev)
  moreover have "\<not> py_isspace (hd ?a)" using a by (rule hd_dropWhile)
  ultimately show ?thesis by (simp add: no_outer_space_def)
qed

lemma dropWhile_id: "xs = [] \<or> \<not> P (hd xs) \<Longrightarrow> dropWhile P xs = xs"
  by (cases xs) auto

lemma strip_no_outer_space: "no_outer_space s \<Longrightarrow> py_strip s = s"
proof (cases "s = []")
  case True
  then show ?thesis by (simp add: py_strip_def)
next
  case False
  assume "no_outer_space s"
  with False have h: "\<not> py_isspace (hd s)" and l: "\<not> py_isspace (last s)"
    by (simp_all add: no_outer_space_def)
  from h have 1: "dropWhile py_isspace s = s" by (simp add: dropWhile_id)
  from l False have "\<not> py_isspace (hd (rev s))" by (simp add: hd_rev)
  then have 2: "dropWhile py_isspace (rev s) = rev s" by (simp add: dropWhile_id)
  show ?thesis by (simp add: py_strip_def 1 2)
qed

lemma py_strip_idem: "py_strip (py_strip s) = py_strip s"
  by (rule strip_no_outer_space) (rule no_outer_space_strip)

lemma hd_filter_keep: "xs \<noteq> [] \<Longrightarrow> Q (hd xs) \<Longrightarrow> hd (filter Q xs) = hd xs"
  by (cases xs) auto

lemma last_filter_keep: "xs \<noteq> [] \<Longrightarrow> Q (last xs) \<Longrightarrow> last (filter Q xs) = last xs"
  by (induction xs rule: rev_induct) auto

lemma control_is_space:
  "c = CHR 0x0D \<or> c = CHR 0x0A \<or> c = CHR 0x09 \<Longrightarrow> py_isspace c"
  by (auto simp: py_isspace_def)

lemma no_outer_space_filter:
  assumes "no_outer_space s"
  shows "no_outer_space (filter (\<lambda>c. c \<noteq> CHR 0x0D \<and> c \<noteq> CHR 0x0A \<and> c \<noteq> CHR 0x09) s)"
proof (cases "s = []")
  case True
  then show ?thesis by (simp add: no_outer_space_def)
next
  case False
  let ?Q = "\<lambda>c. c \<noteq> CHR 0x0D \<and> c \<noteq> CHR 0x0A \<and> c \<noteq> CHR 0x09"
  from assms False have h: "\<not> py_isspace (hd s)" and l: "\<not> py_isspace (last s)"
    by (simp_all add: no_outer_space_def)
  from h have qh: "?Q (hd s)" using control_is_space [of "hd s"] by blast
  from l have ql: "?Q (last s)" using control_is_space [of "last s"] by blast
  have "hd (filter ?Q s) = hd s" using False qh by (rule hd_filter_keep)
  moreover have "last (filter ?Q s) = last s" using False ql by (rule last_filter_keep)
  ultimately show ?thesis using h l by (simp add: no_outer_space_def)
qed

lemma no_outer_space_clean: "no_outer_space (clean_status_value v)"
proof -
  have "no_outer_space (filter (\<lambda>c. c \<noteq> CHR 0x0D \<and> c \<noteq> CHR 0x0A \<and> c \<noteq> CHR 0x09)
      (py_strip (case v of None \<Rightarrow> [] | Some s \<Rightarrow> s)))"
    by (rule no_outer_space_filter) (rule no_outer_space_strip)
  then show ?thesis
    by (simp add: clean_status_value_def Let_def no_outer_space_def)
qed

lemma strip_clean: "py_strip (clean_status_value v) = clean_status_value v"
  by (rule strip_no_outer_space) (rule no_outer_space_clean)


lemma clean_idem: "clean_status_value (Some (clean_status_value v)) = clean_status_value v"
proof -
  let ?Q = "\<lambda>c. c \<noteq> CHR 0x0D \<and> c \<noteq> CHR 0x0A \<and> c \<noteq> CHR 0x09"
  let ?o = "filter ?Q (py_strip (case v of None \<Rightarrow> [] | Some s \<Rightarrow> s))"
  show ?thesis
  proof (cases "py_lower ?o \<in> set NON_MEANINGFUL_STATUS")
    case True
    then have "clean_status_value v = []" by (simp add: clean_status_value_def Let_def)
    then show ?thesis
      by (simp add: clean_status_value_def Let_def py_strip_def py_lower_def
            NON_MEANINGFUL_STATUS_def)
  next
    case False
    then have c: "clean_status_value v = ?o" by (simp add: clean_status_value_def Let_def)
    have "py_strip ?o = ?o" using strip_clean [of v] c by simp
    then have "clean_status_value (Some ?o) = ?o"
      using False by (simp add: clean_status_value_def Let_def)
    with c show ?thesis by simp
  qed
qed

lemma enforce_hours_status_rule_rows:
  "enforce_hours_status_rule df =
     map (\<lambda>r. r\<lparr>Status := Some (py_strip (status_of r)),
               Working_Hours := (if hours_positive (Working_Hours r) then Working_Hours r
                                 else None)\<rparr>)
       (filter (\<lambda>r. hours_positive (Working_Hours r) \<or> py_strip (status_of r) \<noteq> []) df)"
proof -
  have keep: "keep_mask (stripped_status r)
      = (hours_positive (Working_Hours r) \<or> py_strip (status_of r) \<noteq> [])" for r
    by (simp add: keep_mask_def stripped_status_def status_of_def)
  have upd: "keep_mask (stripped_status r) \<Longrightarrow> null_hours (stripped_status r)
      = r\<lparr>Status := Some (py_strip (status_of r)),
           Working_Hours := (if hours_positive (Working_Hours r) then Working_Hours r
                             else None)\<rparr>" for r
    by (auto simp: keep_mask_def null_hours_def stripped_status_def status_of_def)
  have "map null_hours (filter keep_mask (map stripped_status df))
      = map (\<lambda>r. null_hours (stripped_status r)) (filter (\<lambda>r. keep_mask (stripped_status r)) df)"
    by (simp add: filter_map o_def)
  also have "\<dots> = map (\<lambda>r. r\<lparr>Status := Some (py_strip (status_of r)),
               Working_Hours := (if hours_positive (Working_Hours r) then Working_Hours r
                                 else None)\<rparr>)
       (filter (\<lambda>r. keep_mask (stripped_status r)) df)"
    by (rule map_cong [OF refl]) (simp add: upd)
  finally show ?thesis
    by (simp add: enforce_hours_status_rule_def keep)
qed




section \<open>Full-record reconciliation\<close>

lemma map_of_drop_duplicates_last:
  "map_of (map (\<lambda>r. (f r, g r)) (drop_duplicates_last f xs)) k
     = (case filter (\<lambda>r. f r = k) xs of [] \<Rightarrow> None | y # ys \<Rightarrow> Some (g (last (y # ys))))"
proof (induction xs)
  case Nil
  then show ?case by simp
next
  case (Cons x xs)
  show ?case
  proof (cases "f x = k")
    case True
    show ?thesis
    proof (cases "f x \<in> set (map f xs)")
      case dup: True
      with True have "filter (\<lambda>r. f r = k) xs \<noteq> []"
        by (auto simp: filter_empty_conv)
      with True dup Cons show ?thesis
        by (auto split: list.splits)
    next
      case nodup: False
      with True have "filter (\<lambda>r. f r = k) xs = []"
        by (auto simp: filter_empty_conv image_iff)
      with True nodup show ?thesis by simp
    qed
  next
    case False
    with Cons show ?thesis by simp
  qed
qed

lemma sorted_last_greatest:
  "sorted (map h ys) \<Longrightarrow> y \<in> set ys \<Longrightarrow> h y \<le> h (last ys)"
proof (induction ys)
  case Nil
  then show ?case by simp
next
  case (Cons z zs)
  then show ?case by (cases "zs = []") auto
qed

lemma existing_signature_map:
  "existing_signature py rows w = map_of (existing_map py rows) (simple_key w)"
  by (simp add: existing_signature_def existing_map_def sorted_existing_def)

lemma existing_map_None:
  "map_of (existing_map py rows) k = None \<longleftrightarrow> k \<notin> simple_key ` set rows"
proof -
  have "set (filter (\<lambda>r. simple_key r = k) (sorted_existing rows))
      = {r \<in> set rows. simple_key r = k}"
    by (simp add: sorted_existing_def)
  then have "filter (\<lambda>r. simple_key r = k) (sorted_existing rows) = [] \<longleftrightarrow> k \<notin> simple_key ` set rows"
    by (auto simp: filter_empty_conv sorted_existing_def)
  then show ?thesis
    unfolding existing_map_def map_of_drop_duplicates_last
    by (cases "filter (\<lambda>r. simple_key r = k) (sorted_existing rows)") simp_all
qed

lemma existing_map_Some:
  assumes "map_of (existing_map py rows) k = Some s"
  shows "\<exists>e \<in> set rows. simple_key e = k \<and> signature py e = s
           \<and> (\<forall>e' \<in> set rows. simple_key e' = k \<longrightarrow> na_last (Date e') \<le> na_last (Date e))"
proof -
  let ?key = "\<lambda>r. (simple_key r, na_last (Date r))"
  let ?ys = "filter (\<lambda>r. simple_key r = k) (sorted_existing rows)"
  from assms have ne: "?ys \<noteq> []" and s: "s = signature py (last ?ys)"
    unfolding existing_map_def map_of_drop_duplicates_last
    by (auto split: list.splits)
  have srt: "sorted (map ?key ?ys)"
    unfolding sorted_existing_def by (rule sorted_filter) simp
  from ne have "last ?ys \<in> set ?ys" by (rule last_in_set)
  then have mem: "last ?ys \<in> set rows" and key: "simple_key (last ?ys) = k"
    by (auto simp: sorted_existing_def)
  have "na_last (Date e') \<le> na_last (Date (last ?ys))"
    if "e' \<in> set rows" "simple_key e' = k" for e'
  proof -
    from that have "e' \<in> set ?ys" by (simp add: sorted_existing_def)
    from sorted_last_greatest [OF srt this] that(2) key
    show ?thesis by (simp add: less_eq_prod_def)
  qed
  with mem key s show ?thesis by blast
qed


lemma to_insert_Nil: "to_insert py rows [] = []"
  by (simp add: to_insert_def)

lemma to_update_Nil: "to_update py rows [] = []"
  by (simp add: to_update_def)

lemma working_timesheets_Nil: "working_timesheets [] = []"
  by (simp add: working_timesheets_def)

lemma apply_delete_raises:
  assumes "after_delete engine upd tbl = Inl exc"
  shows "apply_timesheet_changes py engine ins upd stats tbl = (timesheet_error stats exc, tbl)"
  using assms by (simp add: apply_timesheet_changes_def after_delete_def)

lemma apply_insert_raises:
  assumes "after_delete engine upd tbl = Inr tbl1" "ins \<noteq> [] \<or> upd \<noteq> []"
    and "bulk_insert_timesheets engine (prepare_timesheet_for_insert py (ins @ upd)) tbl1 = Inl exc"
  shows "apply_timesheet_changes py engine ins upd stats tbl
           = (timesheet_error (counted ins upd stats) exc, tbl1)"
  using assms
  by (cases "ins = []"; cases "upd = []")
     (simp_all add: apply_timesheet_changes_def after_delete_def counted_def Let_def)

lemma apply_succeeds:
  assumes "after_delete engine upd tbl = Inr tbl1" "ins \<noteq> [] \<or> upd \<noteq> []"
    and "bulk_insert_timesheets engine (prepare_timesheet_for_insert py (ins @ upd)) tbl1 = Inr (n, tbl2)"
  shows "apply_timesheet_changes py engine ins upd stats tbl = (counted ins upd stats, tbl2)"
  using assms
  by (cases "ins = []"; cases "upd = []")
     (simp_all add: apply_timesheet_changes_def after_delete_def counted_def Let_def)

lemma after_delete_cases:
  "after_delete engine upd tbl =
     (if upd = [] then Inr tbl
      else case delete_exc engine of Some exc \<Rightarrow> Inl exc | None \<Rightarrow> Inr (rows_after_delete upd tbl))"
proof (cases "upd = []")
  case True
  then show ?thesis by (simp add: after_delete_def)
next
  case False
  then have "delete_keys upd \<noteq> []"
    by (cases upd) (simp_all add: delete_keys_def)
  with False show ?thesis
    by (simp add: after_delete_def delete_timesheet_records_def rows_after_delete_def
          split: option.splits)
qed

lemma rows_after_delete_Nil: "rows_after_delete [] tbl = tbl"
  by (simp add: rows_after_delete_def delete_keys_def)

lemma bulk_insert_cases:
  "bulk_insert_timesheets engine df tbl =
     (if df = [] then Inr (0, tbl)
      else case insert_raises engine of
             Some exc \<Rightarrow> Inl exc
           | None \<Rightarrow> Inr (length df, tbl @ map (stored_record engine) df))"
  by (simp add: bulk_insert_timesheets_def insert_raises_def split: option.splits)

lemma process_timesheet_changes_no_rows:
  assumes "working_timesheets new_records = []"
  shows "out_table (process_timesheet_changes py new_records existing_records engine tbl) = tbl"
    and "out_existing_records (process_timesheet_changes py new_records existing_records engine tbl)
           = existing_records"
    and "inserted (out_stats (process_timesheet_changes py new_records existing_records engine tbl)) = 0"
    and "updated (out_stats (process_timesheet_changes py new_records existing_records engine tbl)) = 0"
    and "skipped (out_stats (process_timesheet_changes py new_records existing_records engine tbl)) = 0"
    and "errors (out_stats (process_timesheet_changes py new_records existing_records engine tbl))
           = (if new_records = [] then []
              else [''No valid timesheet rows remained after cleaning.''])"
  using assms by (simp_all add: process_timesheet_changes_def Let_def)

lemma process_timesheet_changes_rows:
  assumes "working_timesheets new_records \<noteq> []"
  shows "process_timesheet_changes py new_records existing_records engine tbl =
     (let existing' = (if existing_rows existing_records \<noteq> [] then with_keys py existing_records
                       else existing_records);
          ins = planned_inserts py new_records existing_records;
          upd = planned_updates py new_records existing_records;
          stats = initial_stats py new_records existing_records
      in if ins = [] \<and> upd = []
         then \<lparr>out_stats = stats, out_new_records = new_records,
               out_existing_records = existing', out_table = tbl\<rparr>
         else \<lparr>out_stats = fst (apply_timesheet_changes py engine ins upd stats tbl),
               out_new_records = new_records, out_existing_records = existing',
               out_table = snd (apply_timesheet_changes py engine ins upd stats tbl)\<rparr>)"
proof -
  from assms have "new_records \<noteq> []" by (auto simp: working_timesheets_Nil)
  with assms show ?thesis
    by (simp add: process_timesheet_changes_def Let_def planned_inserts_def planned_updates_def
          initial_stats_def split: prod.splits)
qed


lemma apply_timesheet_changes_result:
  assumes "ins \<noteq> [] \<or> upd \<noteq> []"
  shows "apply_timesheet_changes py engine ins upd stats tbl =
     (if upd \<noteq> [] \<and> delete_exc engine \<noteq> None
      then (timesheet_error stats (the (delete_exc engine)), tbl)
      else if prepare_timesheet_for_insert py (ins @ upd) \<noteq> [] \<and> insert_raises engine \<noteq> None
      then (timesheet_error (counted ins upd stats) (the (insert_raises engine)),
            rows_after_delete upd tbl)
      else (counted ins upd stats, rows_after_delete upd tbl @ payload_rows py engine ins upd))"
proof (cases "upd \<noteq> [] \<and> delete_exc engine \<noteq> None")
  case True
  then have "after_delete engine upd tbl = Inl (the (delete_exc engine))"
    by (auto simp: after_delete_cases)
  from apply_delete_raises [OF this] True show ?thesis by auto
next
  case False
  then have del: "after_delete engine upd tbl = Inr (rows_after_delete upd tbl)"
    by (auto simp: after_delete_cases rows_after_delete_Nil)
  show ?thesis
  proof (cases "prepare_timesheet_for_insert py (ins @ upd) \<noteq> [] \<and> insert_raises engine \<noteq> None")
    case True
    then have "bulk_insert_timesheets engine (prepare_timesheet_for_insert py (ins @ upd))
        (rows_after_delete upd tbl) = Inl (the (insert_raises engine))"
      by (auto simp: bulk_insert_cases)
    from apply_insert_raises [OF del assms this] True False show ?thesis by auto
  next
    case noraise: False
    then have "bulk_insert_timesheets engine (prepare_timesheet_for_insert py (ins @ upd))
        (rows_after_delete upd tbl)
      = Inr (length (prepare_timesheet_for_insert py (ins @ upd)),
             rows_after_delete upd tbl @ payload_rows py engine ins upd)"
      by (auto simp: bulk_insert_cases payload_rows_def)
    from apply_succeeds [OF del assms this] noraise False show ?thesis by auto
  qed
qed


lemma update_status_cases:
  "update_status_records engine updates tbl =
     (if updates = [] then Inr (0, tbl)
      else case update_exc engine of
             Some exc \<Rightarrow> Inl exc
           | None \<Rightarrow> Inr (length updates, rows_after_update updates tbl))"
  by (simp add: update_status_records_def rows_after_update_def split: option.splits)

lemma rows_after_update_Nil: "rows_after_update [] tbl = tbl"
  by (simp add: rows_after_update_def)

lemma apply_status_changes_result:
  "apply_status_changes py engine updates inserts stats tbl =
     (if updates \<noteq> [] \<and> update_exc engine \<noteq> None
      then (status_error stats (the (update_exc engine)), tbl)
      else if inserts = []
      then (status_counted updates stats, rows_after_update updates tbl)
      else if status_payload py inserts \<noteq> [] \<and> insert_raises engine \<noteq> None
      then (status_error (status_counted updates stats) (the (insert_raises engine)),
            rows_after_update updates tbl)
      else ((status_counted updates stats)\<lparr>status_inserted := int (length inserts)\<rparr>,
            rows_after_update updates tbl @ map (stored_record engine) (status_payload py inserts)))"
proof (cases "updates \<noteq> [] \<and> update_exc engine \<noteq> None")
  case True
  then show ?thesis
    by (auto simp: apply_status_changes_def update_status_cases)
next
  case False
  then have upd: "(if updates \<noteq> [] then update_status_records engine updates tbl else Inr (0, tbl))
      = Inr (length updates, rows_after_update updates tbl)"
    by (auto simp: update_status_cases rows_after_update_Nil)
  show ?thesis
  proof (cases "inserts = []")
    case True
    with False show ?thesis
      unfolding apply_status_changes_def upd
      by (auto simp: status_counted_def)
  next
    case ins: False
    show ?thesis
    proof (cases "status_payload py inserts \<noteq> [] \<and> insert_raises engine \<noteq> None")
      case True
      then have "bulk_insert_timesheets engine (status_payload py inserts)
          (rows_after_update updates tbl) = Inl (the (insert_raises engine))"
        by (auto simp: bulk_insert_cases)
      with True False ins show ?thesis
        unfolding apply_status_changes_def upd
        by (auto simp: status_counted_def status_payload_def)
    next
      case noraise: False
      then have "bulk_insert_timesheets engine (status_payload py inserts)
          (rows_after_update updates tbl)
        = Inr (length (status_payload py inserts),
               rows_after_update updates tbl @ map (stored_record engine) (status_payload py inserts))"
        by (auto simp: bulk_insert_cases)
      with noraise False ins show ?thesis
        unfolding apply_status_changes_def upd
        by (auto simp: status_counted_def status_payload_def)
    qed
  qed
qed

lemma meaningful_rows_Nil: "meaningful_rows [] = []"
  by (simp add: meaningful_rows_def)

lemma process_status_updates_no_rows:
  assumes "meaningful_rows status_df = []"
  shows "process_status_updates py status_df existing_records engine tbl =
     \<lparr>out_stats = \<lparr>status_updated = 0, status_inserted = 0, status_errors = []\<rparr>,
      out_new_records = status_df, out_existing_records = existing_records, out_table = tbl\<rparr>"
  using assms by (simp add: process_status_updates_def Let_def meaningful_rows_def)

lemma process_status_updates_rows:
  assumes "meaningful_rows status_df \<noteq> []"
  shows "process_status_updates py status_df existing_records engine tbl =
     (let existing' = (if existing_rows existing_records \<noteq> []
                       then with_simple_key existing_records else existing_records);
          changes = apply_status_changes py engine
                      (planned_status_updates status_df existing_records)
                      (planned_status_inserts status_df existing_records)
                      \<lparr>status_updated = 0, status_inserted = 0, status_errors = []\<rparr> tbl
      in \<lparr>out_stats = fst changes, out_new_records = status_df,
          out_existing_records = existing', out_table = snd changes\<rparr>)"
proof -
  from assms have "status_df \<noteq> []" "filter keyable status_df \<noteq> []"
    by (auto simp: meaningful_rows_def)
  with assms show ?thesis
    by (simp add: process_status_updates_def Let_def meaningful_rows_def
          planned_status_updates_def planned_status_inserts_def split: prod.splits)
qed

lemma process_timesheet_changes_stats:
  "out_stats (process_timesheet_changes py new_records existing_records engine tbl) =
     (if new_records = [] then \<lparr>inserted = 0, updated = 0, skipped = 0, errors = []\<rparr>
      else if working_timesheets new_records = []
      then \<lparr>inserted = 0, updated = 0, skipped = 0,
            errors = [''No valid timesheet rows remained after cleaning.'']\<rparr>
      else if planned_inserts py new_records existing_records = []
              \<and> planned_updates py new_records existing_records = []
      then initial_stats py new_records existing_records
      else fst (apply_timesheet_changes py engine (planned_inserts py new_records existing_records)
                  (planned_updates py new_records existing_records)
                  (initial_stats py new_records existing_records) tbl))"
proof (cases "working_timesheets new_records = []")
  case True
  then show ?thesis
    by (simp add: process_timesheet_changes_def Let_def working_timesheets_Nil)
next
  case False
  then have "new_records \<noteq> []" by (auto simp: working_timesheets_Nil)
  with False show ?thesis
    by (simp add: process_timesheet_changes_rows Let_def)
qed

lemma process_timesheet_changes_table:
  "out_table (process_timesheet_changes py new_records existing_records engine tbl) =
     (if planned_inserts py new_records existing_records = []
           \<and> planned_updates py new_records existing_records = []
      then tbl
      else snd (apply_timesheet_changes py engine (planned_inserts py new_records existing_records)
                  (planned_updates py new_records existing_records)
                  (initial_stats py new_records existing_records) tbl))"
proof (cases "working_timesheets new_records = []")
  case True
  then show ?thesis
    by (simp add: process_timesheet_changes_no_rows planned_inserts_def planned_updates_def
          to_insert_Nil to_update_Nil)
next
  case False
  then show ?thesis
    by (simp add: process_timesheet_changes_rows Let_def)
qed

lemma skipped_counted: "skipped (counted ins upd stats) = skipped stats"
  by (simp add: counted_def Let_def)

lemma errors_counted: "errors (counted ins upd stats) = errors stats"
  by (simp add: counted_def Let_def)

lemma inserted_counted:
  "inserted stats = 0 \<Longrightarrow> inserted (counted ins upd stats) = int (length ins)"
  by (simp add: counted_def Let_def)

lemma updated_counted:
  "updated stats = 0 \<Longrightarrow> updated (counted ins upd stats) = int (length upd)"
  by (simp add: counted_def Let_def)

lemma planned_Nil:
  "working_timesheets new_records = [] \<Longrightarrow> planned_inserts py new_records existing_records = []"
  "working_timesheets new_records = [] \<Longrightarrow> planned_updates py new_records existing_records = []"
  by (simp_all add: planned_inserts_def planned_updates_def to_insert_Nil to_update_Nil)

lemma process_timesheet_changes_skipped:
  "skipped (out_stats (process_timesheet_changes py new_records existing_records engine tbl))
     = int (length (working_timesheets new_records))
       - int (length (planned_inserts py new_records existing_records))
       - int (length (planned_updates py new_records existing_records))"
proof (cases "working_timesheets new_records = []")
  case True
  then show ?thesis
    by (simp add: process_timesheet_changes_no_rows planned_Nil)
next
  case False
  then have "new_records \<noteq> []" by (auto simp: working_timesheets_Nil)
  with False show ?thesis
    by (simp add: process_timesheet_changes_stats apply_timesheet_changes_result
          skipped_counted timesheet_error_def initial_stats_def)
qed

lemma process_timesheet_changes_counts:
  assumes "planned_updates py new_records existing_records = [] \<or> delete_exc engine = None"
  shows "inserted (out_stats (process_timesheet_changes py new_records existing_records engine tbl))
           = int (length (planned_inserts py new_records existing_records))"
    and "updated (out_stats (process_timesheet_changes py new_records existing_records engine tbl))
           = int (length (planned_updates py new_records existing_records))"
proof -
  have "inserted (out_stats (process_timesheet_changes py new_records existing_records engine tbl))
           = int (length (planned_inserts py new_records existing_records))
      \<and> updated (out_stats (process_timesheet_changes py new_records existing_records engine tbl))
           = int (length (planned_updates py new_records existing_records))"
  proof (cases "working_timesheets new_records = []")
    case True
    then show ?thesis
      by (simp add: process_timesheet_changes_no_rows planned_Nil)
  next
    case False
    then have "new_records \<noteq> []" by (auto simp: working_timesheets_Nil)
    with False assms show ?thesis
      by (auto simp: process_timesheet_changes_stats apply_timesheet_changes_result
            inserted_counted updated_counted timesheet_error_def initial_stats_def)
  qed
  then show "inserted (out_stats (process_timesheet_changes py new_records existing_records engine tbl))
           = int (length (planned_inserts py new_records existing_records))"
    and "updated (out_stats (process_timesheet_changes py new_records existing_records engine tbl))
           = int (length (planned_updates py new_records existing_records))"
    by simp_all
qed

lemma alice_key: "simple_key (alice h st) = ''2025-01-01|Alice|P1''"
  by code_simp

lemma alice_keyable: "keyable (alice h st)"
  by (simp add: keyable_def alice_def)

lemma alice_signature_8:
  "signature example_python (alice (Some 8) (Some ''Complete''))
     = ''2025-01-01|Alice||||P1|8.0|Complete|||''"
  by code_simp

lemma alice_signature_6:
  "signature example_python (alice (Some 6) (Some ''Complete''))
     = ''2025-01-01|Alice||||P1|6.0|Complete|||''"
  by code_simp

lemma existing_map_single: "existing_map py [e] = [(simple_key e, signature py e)]"
  by (simp add: existing_map_def sorted_existing_def)

lemma working_alice: "working_timesheets [alice h st] = [alice h st]"
  by (simp add: working_timesheets_def alice_keyable)

lemma fresh_rows: "existing_rows (fresh_frame rows) = rows"
  by (simp add: fresh_frame_def)

lemma planned_alice:
  "planned_updates example_python [alice (Some 6) (Some ''Complete'')]
       (fresh_frame [alice (Some 8) (Some ''Complete'')])
     = [alice (Some 6) (Some ''Complete'')]"
  "planned_inserts example_python [alice (Some 6) (Some ''Complete'')]
       (fresh_frame [alice (Some 8) (Some ''Complete'')])
     = []"
  by (simp_all add: planned_updates_def planned_inserts_def to_update_def to_insert_def
        working_alice fresh_rows existing_signature_map existing_map_single alice_key
        alice_signature_8 alice_signature_6)

text \<open>
  C3. Every keyable new record falls in exactly one class against the canonical map of
  the existing records: insert when its simple key is not in the map, skip when the
  mapped signature is its own, update when the mapped signature differs. The map has a
  key exactly when an existing record has it, and maps it to the signature of an
  existing record with that key whose date is latest, a missing date counting as latest.
  The reported \<open>skipped\<close> is the number of keyable records minus the sizes of the insert
  and update classes, and the reported \<open>inserted\<close> and \<open>updated\<close> are those sizes
  whenever the delete step does not raise.
\<close>

theorem process_timesheet_changes_classifies:
  "(\<forall>w \<in> set (working_timesheets new_records).
      (w \<in> set (planned_inserts py new_records existing_records)
         \<longleftrightarrow> map_of (existing_map py (existing_rows existing_records)) (simple_key w) = None)
    \<and> (w \<in> set (planned_updates py new_records existing_records)
         \<longleftrightarrow> (\<exists>s. map_of (existing_map py (existing_rows existing_records)) (simple_key w) = Some s
                  \<and> s \<noteq> signature py w))
    \<and> (w \<notin> set (planned_inserts py new_records existing_records)
         \<and> w \<notin> set (planned_updates py new_records existing_records)
         \<longleftrightarrow> map_of (existing_map py (existing_rows existing_records)) (simple_key w)
               = Some (signature py w)))
   \<and> (\<forall>k. (map_of (existing_map py (existing_rows existing_records)) k = None
              \<longleftrightarrow> k \<notin> simple_key ` set (existing_rows existing_records))
        \<and> (\<forall>s. map_of (existing_map py (existing_rows existing_records)) k = Some s \<longrightarrow>
              (\<exists>e \<in> set (existing_rows existing_records). simple_key e = k \<and> signature py e = s
                 \<and> (\<forall>e' \<in> set (existing_rows existing_records). simple_key e' = k
                       \<longrightarrow> na_last (Date e') \<le> na_last (Date e)))))
   \<and> skipped (out_stats (process_timesheet_changes py new_records existing_records engine tbl))
       = int (length (working_timesheets new_records))
         - int (length (planned_inserts py new_records existing_records))
         - int (length (planned_updates py new_records existing_records))
   \<and> (planned_updates py new_records existing_records = [] \<or> delete_exc engine = None \<longrightarrow>
      inserted (out_stats (process_timesheet_changes py new_records existing_records engine tbl))
        = int (length (planned_inserts py new_records existing_records))
      \<and> updated (out_stats (process_timesheet_changes py new_records existing_records engine tbl))
        = int (length (planned_updates py new_records existing_records)))"
proof (intro conjI ballI allI impI)
  fix w assume w: "w \<in> set (working_timesheets new_records)"
  let ?rows = "existing_rows existing_records"
  show "w \<in> set (planned_inserts py new_records existing_records)
      \<longleftrightarrow> map_of (existing_map py ?rows) (simple_key w) = None"
    using w by (simp add: planned_inserts_def to_insert_def existing_signature_map)
  show "w \<in> set (planned_updates py new_records existing_records)
      \<longleftrightarrow> (\<exists>s. map_of (existing_map py ?rows) (simple_key w) = Some s \<and> s \<noteq> signature py w)"
    using w by (auto simp: planned_updates_def to_update_def existing_signature_map)
  show "w \<notin> set (planned_inserts py new_records existing_records)
        \<and> w \<notin> set (planned_updates py new_records existing_records)
      \<longleftrightarrow> map_of (existing_map py ?rows) (simple_key w) = Some (signature py w)"
    using w
    by (auto simp: planned_inserts_def planned_updates_def to_insert_def to_update_def
          existing_signature_map)
next
  fix k
  show "map_of (existing_map py (existing_rows existing_records)) k = None
      \<longleftrightarrow> k \<notin> simple_key ` set (existing_rows existing_records)"
    by (rule existing_map_None)
next
  fix k s assume "map_of (existing_map py (existing_rows existing_records)) k = Some s"
  then show "\<exists>e \<in> set (existing_rows existing_records). simple_key e = k \<and> signature py e = s
      \<and> (\<forall>e' \<in> set (existing_rows existing_records). simple_key e' = k
            \<longrightarrow> na_last (Date e') \<le> na_last (Date e))"
    by (rule existing_map_Some)
next
  show "skipped (out_stats (process_timesheet_changes py new_records existing_records engine tbl))
       = int (length (working_timesheets new_records))
         - int (length (planned_inserts py new_records existing_records))
         - int (length (planned_updates py new_records existing_records))"
    by (rule process_timesheet_changes_skipped)
next
  assume h: "planned_updates py new_records existing_records = [] \<or> delete_exc engine = None"
  show "inserted (out_stats (process_timesheet_changes py new_records existing_records engine tbl))
        = int (length (planned_inserts py new_records existing_records))"
    by (rule process_timesheet_changes_counts(1) [OF h])
  show "updated (out_stats (process_timesheet_changes py new_records existing_records engine tbl))
        = int (length (planned_updates py new_records existing_records))"
    by (rule process_timesheet_changes_counts(2) [OF h])
qed

theorem process_timesheet_changes_classifies_witness:
  "alice (Some 6) (Some ''Complete'') \<in> set (working_timesheets [alice (Some 6) (Some ''Complete'')])
   \<and> map_of (existing_map example_python [alice (Some 8) (Some ''Complete'')])
        (simple_key (alice (Some 6) (Some ''Complete'')))
       = Some ''2025-01-01|Alice||||P1|8.0|Complete|||''
   \<and> ''2025-01-01|Alice||||P1|8.0|Complete|||''
       \<noteq> signature example_python (alice (Some 6) (Some ''Complete''))
   \<and> delete_exc healthy_engine = None
   \<and> alice (Some 6) (Some ''Complete'')
       \<in> set (planned_updates example_python [alice (Some 6) (Some ''Complete'')]
                (fresh_frame [alice (Some 8) (Some ''Complete'')]))
   \<and> updated (out_stats (process_timesheet_changes example_python
        [alice (Some 6) (Some ''Complete'')]
        (fresh_frame [alice (Some 8) (Some ''Complete'')]) healthy_engine
        [alice (Some 8) (Some ''Complete'')])) = 1"
proof -
  have w: "alice (Some 6) (Some ''Complete'')
      \<in> set (working_timesheets [alice (Some 6) (Some ''Complete'')])"
    by (simp add: working_alice)
  have m: "map_of (existing_map example_python [alice (Some 8) (Some ''Complete'')])
        (simple_key (alice (Some 6) (Some ''Complete'')))
       = Some ''2025-01-01|Alice||||P1|8.0|Complete|||''"
    by (simp add: existing_map_single alice_key alice_signature_8)
  have s: "''2025-01-01|Alice||||P1|8.0|Complete|||''
      \<noteq> signature example_python (alice (Some 6) (Some ''Complete''))"
    by (simp add: alice_signature_6)
  have e: "delete_exc healthy_engine = None"
    by (simp add: healthy_engine_def)
  note t = process_timesheet_changes_classifies
    [of "[alice (Some 6) (Some ''Complete'')]" example_python
       "fresh_frame [alice (Some 8) (Some ''Complete'')]"
       healthy_engine "[alice (Some 8) (Some ''Complete'')]", unfolded fresh_rows]
  from t w m s have u: "alice (Some 6) (Some ''Complete'')
      \<in> set (planned_updates example_python [alice (Some 6) (Some ''Complete'')]
               (fresh_frame [alice (Some 8) (Some ''Complete'')]))"
    by blast
  from t e have "updated (out_stats (process_timesheet_changes example_python
      [alice (Some 6) (Some ''Complete'')] (fresh_frame [alice (Some 8) (Some ''Complete'')])
      healthy_engine [alice (Some 8) (Some ''Complete'')]))
    = int (length (planned_updates example_python [alice (Some 6) (Some ''Complete'')]
        (fresh_frame [alice (Some 8) (Some ''Complete'')])))"
    by blast
  then have n: "updated (out_stats (process_timesheet_changes example_python
      [alice (Some 6) (Some ''Complete'')] (fresh_frame [alice (Some 8) (Some ''Complete'')])
      healthy_engine [alice (Some 8) (Some ''Complete'')])) = 1"
    by (simp add: planned_alice)
  from w m s e u n show ?thesis by blast
qed

lemma failing_delete_stats:
  "out_stats (process_timesheet_changes example_python [alice (Some 6) (Some ''Complete'')]
      (fresh_frame [alice (Some 8) (Some ''Complete'')]) failing_delete
      [alice (Some 8) (Some ''Complete'')])
   = \<lparr>inserted = 0, updated = 0, skipped = 0,
      errors = [''Error inserting or updating timesheet data: connection lost'']\<rparr>"
  by (simp add: process_timesheet_changes_stats working_alice planned_alice
        apply_timesheet_changes_result initial_stats_def timesheet_error_def
        failing_delete_def healthy_engine_def)

text \<open>
  When the delete step raises, \<open>updated\<close> and \<open>inserted\<close> were not assigned yet: one
  keyable record in the update class is reported with all three counts at zero.
\<close>

theorem process_timesheet_changes_counts_counterexample:
  "skipped (out_stats (process_timesheet_changes example_python
      [alice (Some 6) (Some ''Complete'')]
      (fresh_frame [alice (Some 8) (Some ''Complete'')]) failing_delete
      [alice (Some 8) (Some ''Complete'')]))
   \<noteq> int (length (working_timesheets [alice (Some 6) (Some ''Complete'')]))
     - inserted (out_stats (process_timesheet_changes example_python
         [alice (Some 6) (Some ''Complete'')]
         (fresh_frame [alice (Some 8) (Some ''Complete'')]) failing_delete
         [alice (Some 8) (Some ''Complete'')]))
     - updated (out_stats (process_timesheet_changes example_python
         [alice (Some 6) (Some ''Complete'')]
         (fresh_frame [alice (Some 8) (Some ''Complete'')]) failing_delete
         [alice (Some 8) (Some ''Complete'')]))"
  by (simp add: failing_delete_stats working_alice)

lemma errors_initial_stats: "errors (initial_stats py new_records existing_records) = []"
  by (simp add: initial_stats_def)

lemma errors_timesheet_error:
  "errors (timesheet_error stats exc)
     = errors stats @ [''Error inserting or updating timesheet data: '' @ exc]"
  by (simp add: timesheet_error_def)

lemma payload_Nil: "prepare_timesheet_for_insert py [] = []"
  by (simp add: prepare_timesheet_for_insert_def)

lemma process_timesheet_changes_delete_raises:
  assumes "planned_updates py new_records existing_records \<noteq> []"
    and "delete_exc engine = Some exc"
  shows "out_table (process_timesheet_changes py new_records existing_records engine tbl) = tbl"
    and "errors (out_stats (process_timesheet_changes py new_records existing_records engine tbl))
           = [''Error inserting or updating timesheet data: '' @ exc]"
proof -
  from assms(1) have w: "working_timesheets new_records \<noteq> []"
    by (auto simp: planned_Nil)
  then have n: "new_records \<noteq> []" by (auto simp: working_timesheets_Nil)
  from assms show "out_table (process_timesheet_changes py new_records existing_records engine tbl) = tbl"
    by (simp add: process_timesheet_changes_table apply_timesheet_changes_result)
  from assms w n show "errors (out_stats (process_timesheet_changes py new_records existing_records engine tbl))
           = [''Error inserting or updating timesheet data: '' @ exc]"
    by (simp add: process_timesheet_changes_stats apply_timesheet_changes_result
          errors_timesheet_error errors_initial_stats)
qed

lemma process_timesheet_changes_insert_raises:
  assumes "planned_updates py new_records existing_records = [] \<or> delete_exc engine = None"
    and "prepare_timesheet_for_insert py
           (planned_inserts py new_records existing_records
              @ planned_updates py new_records existing_records) \<noteq> []"
    and "insert_raises engine = Some exc"
  shows "out_table (process_timesheet_changes py new_records existing_records engine tbl)
           = rows_after_delete (planned_updates py new_records existing_records) tbl"
    and "errors (out_stats (process_timesheet_changes py new_records existing_records engine tbl))
           = [''Error inserting or updating timesheet data: '' @ exc]"
proof -
  from assms(2) have some: "planned_inserts py new_records existing_records \<noteq> []
      \<or> planned_updates py new_records existing_records \<noteq> []"
    by (auto simp: payload_Nil)
  then have w: "working_timesheets new_records \<noteq> []"
    by (auto simp: planned_Nil)
  then have n: "new_records \<noteq> []" by (auto simp: working_timesheets_Nil)
  from assms some show "out_table (process_timesheet_changes py new_records existing_records engine tbl)
           = rows_after_delete (planned_updates py new_records existing_records) tbl"
    by (auto simp: process_timesheet_changes_table apply_timesheet_changes_result)
  from assms some w n show "errors (out_stats (process_timesheet_changes py new_records existing_records engine tbl))
           = [''Error inserting or updating timesheet data: '' @ exc]"
    by (auto simp: process_timesheet_changes_stats apply_timesheet_changes_result
          errors_timesheet_error errors_initial_stats errors_counted)
qed

lemma process_timesheet_changes_commits:
  assumes "planned_updates py new_records existing_records = [] \<or> delete_exc engine = None"
    and "prepare_timesheet_for_insert py
           (planned_inserts py new_records existing_records
              @ planned_updates py new_records existing_records) = []
         \<or> insert_raises engine = None"
  shows "out_table (process_timesheet_changes py new_records existing_records engine tbl)
           = rows_after_delete (planned_updates py new_records existing_records) tbl
             @ payload_rows py engine (planned_inserts py new_records existing_records)
                 (planned_updates py new_records existing_records)"
    and "errors (out_stats (process_timesheet_changes py new_records existing_records engine tbl))
           = (if new_records \<noteq> [] \<and> working_timesheets new_records = []
              then [''No valid timesheet rows remained after cleaning.''] else [])"
proof -
  show "out_table (process_timesheet_changes py new_records existing_records engine tbl)
           = rows_after_delete (planned_updates py new_records existing_records) tbl
             @ payload_rows py engine (planned_inserts py new_records existing_records)
                 (planned_updates py new_records existing_records)"
  proof (cases "planned_inserts py new_records existing_records = []
      \<and> planned_updates py new_records existing_records = []")
    case True
    then show ?thesis
      by (simp add: process_timesheet_changes_table rows_after_delete_Nil payload_rows_def
            payload_Nil)
  next
    case False
    with assms show ?thesis
      by (auto simp: process_timesheet_changes_table apply_timesheet_changes_result)
  qed
  show "errors (out_stats (process_timesheet_changes py new_records existing_records engine tbl))
           = (if new_records \<noteq> [] \<and> working_timesheets new_records = []
              then [''No valid timesheet rows remained after cleaning.''] else [])"
  proof (cases "working_timesheets new_records = []")
    case True
    then show ?thesis by (simp add: process_timesheet_changes_no_rows)
  next
    case False
    then have n: "new_records \<noteq> []" by (auto simp: working_timesheets_Nil)
    show ?thesis
    proof (cases "planned_inserts py new_records existing_records = []
        \<and> planned_updates py new_records existing_records = []")
      case True
      with False n show ?thesis
        by (simp add: process_timesheet_changes_stats errors_initial_stats)
    next
      case some: False
      with assms False n show ?thesis
        by (auto simp: process_timesheet_changes_stats apply_timesheet_changes_result
              errors_initial_stats errors_counted)
    qed
  qed
qed

lemma working_statuses_Nil:
  "meaningful_rows status_df = [] \<Longrightarrow> working_statuses status_df = []"
  by (simp add: working_statuses_def meaningful_rows_def sorted_statuses_def)

lemma planned_status_Nil:
  "meaningful_rows status_df = [] \<Longrightarrow> planned_status_updates status_df existing_records = []"
  "meaningful_rows status_df = [] \<Longrightarrow> planned_status_inserts status_df existing_records = []"
  by (simp_all add: planned_status_updates_def planned_status_inserts_def working_statuses_Nil
        status_updates_def status_inserts_def)

lemma status_errors_error:
  "status_errors (status_error stats exc)
     = status_errors stats @ [''Error updating status information: '' @ exc]"
  by (simp add: status_error_def)

lemma status_errors_counted: "status_errors (status_counted updates stats) = status_errors stats"
  by (simp add: status_counted_def)

lemma process_status_updates_stats:
  "out_stats (process_status_updates py status_df existing_records engine tbl) =
     (if meaningful_rows status_df = []
      then \<lparr>status_updated = 0, status_inserted = 0, status_errors = []\<rparr>
      else fst (apply_status_changes py engine
                  (planned_status_updates status_df existing_records)
                  (planned_status_inserts status_df existing_records)
                  \<lparr>status_updated = 0, status_inserted = 0, status_errors = []\<rparr> tbl))"
  by (simp add: process_status_updates_no_rows process_status_updates_rows Let_def)

lemma process_status_updates_table:
  "out_table (process_status_updates py status_df existing_records engine tbl) =
     (if meaningful_rows status_df = [] then tbl
      else snd (apply_status_changes py engine
                  (planned_status_updates status_df existing_records)
                  (planned_status_inserts status_df existing_records)
                  \<lparr>status_updated = 0, status_inserted = 0, status_errors = []\<rparr> tbl))"
  by (simp add: process_status_updates_no_rows process_status_updates_rows Let_def)

lemma process_status_updates_update_raises:
  assumes "planned_status_updates status_df existing_records \<noteq> []"
    and "update_exc engine = Some exc"
  shows "status_errors (out_stats (process_status_updates py status_df existing_records engine tbl))
           = [''Error updating status information: '' @ exc]"
    and "out_table (process_status_updates py status_df existing_records engine tbl) = tbl"
proof -
  from assms(1) have m: "meaningful_rows status_df \<noteq> []"
    by (auto simp: planned_status_Nil)
  from assms m show "status_errors (out_stats (process_status_updates py status_df existing_records engine tbl))
           = [''Error updating status information: '' @ exc]"
    by (simp add: process_status_updates_stats apply_status_changes_result status_errors_error)
  from assms m show "out_table (process_status_updates py status_df existing_records engine tbl) = tbl"
    by (simp add: process_status_updates_table apply_status_changes_result)
qed

lemma process_status_updates_insert_raises:
  assumes "planned_status_updates status_df existing_records = [] \<or> update_exc engine = None"
    and "planned_status_inserts status_df existing_records \<noteq> []"
    and "status_payload py (planned_status_inserts status_df existing_records) \<noteq> []"
    and "insert_raises engine = Some exc"
  shows "status_errors (out_stats (process_status_updates py status_df existing_records engine tbl))
           = [''Error updating status information: '' @ exc]"
proof -
  from assms(2) have m: "meaningful_rows status_df \<noteq> []"
    by (auto simp: planned_status_Nil)
  from assms m show ?thesis
    by (auto simp: process_status_updates_stats apply_status_changes_result status_errors_error
          status_errors_counted)
qed

lemma process_status_updates_no_raise:
  assumes "planned_status_updates status_df existing_records = [] \<or> update_exc engine = None"
    and "planned_status_inserts status_df existing_records = []
         \<or> status_payload py (planned_status_inserts status_df existing_records) = []
         \<or> insert_raises engine = None"
  shows "status_errors (out_stats (process_status_updates py status_df existing_records engine tbl))
           = []"
proof (cases "meaningful_rows status_df = []")
  case True
  then show ?thesis by (simp add: process_status_updates_stats)
next
  case False
  with assms show ?thesis
    by (auto simp: process_status_updates_stats apply_status_changes_result
          status_errors_counted)
qed

lemma process_timesheet_changes_frames:
  "out_new_records (process_timesheet_changes py new_records existing_records engine tbl)
     = new_records"
  "out_existing_records (process_timesheet_changes py new_records existing_records engine tbl)
     = (if working_timesheets new_records \<noteq> [] \<and> existing_rows existing_records \<noteq> []
        then with_keys py existing_records else existing_records)"
proof -
  show "out_new_records (process_timesheet_changes py new_records existing_records engine tbl)
     = new_records"
  proof (cases "working_timesheets new_records = []")
    case True
    then show ?thesis by (simp add: process_timesheet_changes_def Let_def)
  next
    case False
    then show ?thesis by (simp add: process_timesheet_changes_rows Let_def)
  qed
  show "out_existing_records (process_timesheet_changes py new_records existing_records engine tbl)
     = (if working_timesheets new_records \<noteq> [] \<and> existing_rows existing_records \<noteq> []
        then with_keys py existing_records else existing_records)"
    by (cases "working_timesheets new_records = []")
       (simp_all add: process_timesheet_changes_no_rows process_timesheet_changes_rows Let_def)
qed

lemma process_status_updates_frames:
  "out_new_records (process_status_updates py status_df existing_records engine tbl) = status_df"
  "out_existing_records (process_status_updates py status_df existing_records engine tbl)
     = (if meaningful_rows status_df \<noteq> [] \<and> existing_rows existing_records \<noteq> []
        then with_simple_key existing_records else existing_records)"
  by (cases "meaningful_rows status_df = []";
      simp add: process_status_updates_no_rows process_status_updates_rows Let_def)+

lemma with_keys_columns:
  "existing_rows ex \<noteq> [] \<Longrightarrow>
     with_keys py ex = ex\<lparr>simple_key_column := Some (map simple_key (existing_rows ex)),
                         signature_column := Some (map (signature py) (existing_rows ex))\<rparr>"
  by (simp add: with_keys_def build_simple_key_def build_signature_def)

lemma with_simple_key_column:
  "existing_rows ex \<noteq> [] \<Longrightarrow>
     with_simple_key ex = ex\<lparr>simple_key_column := Some (map simple_key (existing_rows ex))\<rparr>"
  by (simp add: with_simple_key_def build_simple_key_def)

lemma payload_alice:
  "prepare_timesheet_for_insert example_python ([] @ [alice (Some 6) (Some ''Complete'')]) \<noteq> []"
  by (simp add: prepare_timesheet_for_insert_def format_for_mysql_def
        enforce_hours_status_rule_rows alice_def hours_positive_def)

lemma delete_alice:
  "rows_after_delete [alice (Some 6) (Some ''Complete'')] [alice (Some 8) (Some ''Complete'')] = []"
  by (simp add: rows_after_delete_def delete_keys_def key_values_def key_matches_def
        sql_eq_def sql_date_def alice_def)

lemma engine_facts:
  "delete_exc failing_delete = Some ''connection lost''"
  "delete_exc failing_insert = None"
  "insert_raises failing_insert = Some ''connection lost''"
  "delete_exc healthy_engine = None"
  "insert_raises healthy_engine = None"
  "update_exc failing_update = Some ''lock wait timeout''"
  "update_exc healthy_engine = None"
  by (simp_all add: failing_delete_def failing_insert_def failing_update_def healthy_engine_def
        insert_raises_def)

lemma stored_alice:
  "payload_rows example_python healthy_engine [] [alice (Some 6) (Some ''Complete'')]
     = [\<lparr>Date = Some (2025, 1, 1, 0), Employee_Name = Some ''Alice'', Project_ID = Some ''P1'',
         Status = Some ''Complete'', Employee_Role = Some ''unknown'',
         Office_Location = Some ''unknown'', Project_Name = Some ''unknown'',
         Working_Hours = Some 6, Interviews = None, Database = None,
         Database_Converted = None\<rparr>]"
  by code_simp

text \<open>
  C5. The delete and the insert of one update batch are two transactions, each atomic on
  its own. When the delete raises, the table is untouched and one error is reported.
  When the delete has committed (or nothing was to delete) and the insert raises, the
  table is left with the old rows deleted and nothing inserted, and one error is
  reported. Otherwise the table is the old one without the deleted rows, followed by the
  inserted rows, and no persistence error is reported.
\<close>

theorem process_timesheet_changes_halves:
  "(planned_updates py new_records existing_records \<noteq> [] \<and> delete_exc engine \<noteq> None \<longrightarrow>
      out_table (process_timesheet_changes py new_records existing_records engine tbl) = tbl
      \<and> length (errors (out_stats
            (process_timesheet_changes py new_records existing_records engine tbl))) = 1)
   \<and> ((planned_updates py new_records existing_records = [] \<or> delete_exc engine = None)
       \<and> prepare_timesheet_for_insert py
             (planned_inserts py new_records existing_records
                @ planned_updates py new_records existing_records) \<noteq> []
       \<and> insert_raises engine \<noteq> None \<longrightarrow>
      out_table (process_timesheet_changes py new_records existing_records engine tbl)
        = rows_after_delete (planned_updates py new_records existing_records) tbl
      \<and> length (errors (out_stats
            (process_timesheet_changes py new_records existing_records engine tbl))) = 1)
   \<and> ((planned_updates py new_records existing_records = [] \<or> delete_exc engine = None)
       \<and> (prepare_timesheet_for_insert py
              (planned_inserts py new_records existing_records
                 @ planned_updates py new_records existing_records) = []
            \<or> insert_raises engine = None) \<longrightarrow>
      out_table (process_timesheet_changes py new_records existing_records engine tbl)
        = rows_after_delete (planned_updates py new_records existing_records) tbl
          @ payload_rows py engine (planned_inserts py new_records existing_records)
              (planned_updates py new_records existing_records)
      \<and> errors (out_stats
            (process_timesheet_changes py new_records existing_records engine tbl))
          = (if new_records \<noteq> [] \<and> working_timesheets new_records = []
             then [''No valid timesheet rows remained after cleaning.''] else []))"
proof (intro conjI impI)
  assume h: "planned_updates py new_records existing_records \<noteq> [] \<and> delete_exc engine \<noteq> None"
  then obtain exc where exc: "delete_exc engine = Some exc" by auto
  from h have u: "planned_updates py new_records existing_records \<noteq> []" by simp
  show "out_table (process_timesheet_changes py new_records existing_records engine tbl) = tbl"
    by (rule process_timesheet_changes_delete_raises(1) [OF u exc])
  show "length (errors (out_stats
      (process_timesheet_changes py new_records existing_records engine tbl))) = 1"
    by (simp add: process_timesheet_changes_delete_raises(2) [OF u exc])
next
  assume h: "(planned_updates py new_records existing_records = [] \<or> delete_exc engine = None)
       \<and> prepare_timesheet_for_insert py
             (planned_inserts py new_records existing_records
                @ planned_updates py new_records existing_records) \<noteq> []
       \<and> insert_raises engine \<noteq> None"
  then obtain exc where exc: "insert_raises engine = Some exc" by auto
  from h have d: "planned_updates py new_records existing_records = [] \<or> delete_exc engine = None"
    and p: "prepare_timesheet_for_insert py
             (planned_inserts py new_records existing_records
                @ planned_updates py new_records existing_records) \<noteq> []"
    by simp_all
  show "out_table (process_timesheet_changes py new_records existing_records engine tbl)
        = rows_after_delete (planned_updates py new_records existing_records) tbl"
    by (rule process_timesheet_changes_insert_raises(1) [OF d p exc])
  show "length (errors (out_stats
      (process_timesheet_changes py new_records existing_records engine tbl))) = 1"
    by (simp add: process_timesheet_changes_insert_raises(2) [OF d p exc])
next
  assume h: "(planned_updates py new_records existing_records = [] \<or> delete_exc engine = None)
       \<and> (prepare_timesheet_for_insert py
              (planned_inserts py new_records existing_records
                 @ planned_updates py new_records existing_records) = []
            \<or> insert_raises engine = None)"
  then have d: "planned_updates py new_records existing_records = [] \<or> delete_exc engine = None"
    and p: "prepare_timesheet_for_insert py
              (planned_inserts py new_records existing_records
                 @ planned_updates py new_records existing_records) = []
            \<or> insert_raises engine = None"
    by simp_all
  show "out_table (process_timesheet_changes py new_records existing_records engine tbl)
        = rows_after_delete (planned_updates py new_records existing_records) tbl
          @ payload_rows py engine (planned_inserts py new_records existing_records)
              (planned_updates py new_records existing_records)"
    by (rule process_timesheet_changes_commits(1) [OF d p])
  show "errors (out_stats
            (process_timesheet_changes py new_records existing_records engine tbl))
          = (if new_records \<noteq> [] \<and> working_timesheets new_records = []
             then [''No valid timesheet rows remained after cleaning.''] else [])"
    by (rule process_timesheet_changes_commits(2) [OF d p])
qed

theorem process_timesheet_changes_halves_witness:
  "planned_updates example_python [alice (Some 6) (Some ''Complete'')]
       (fresh_frame [alice (Some 8) (Some ''Complete'')]) \<noteq> []
   \<and> delete_exc failing_delete \<noteq> None
   \<and> out_table (process_timesheet_changes example_python [alice (Some 6) (Some ''Complete'')]
        (fresh_frame [alice (Some 8) (Some ''Complete'')]) failing_delete
        [alice (Some 8) (Some ''Complete'')]) = [alice (Some 8) (Some ''Complete'')]
   \<and> delete_exc failing_insert = None
   \<and> insert_raises failing_insert \<noteq> None
   \<and> out_table (process_timesheet_changes example_python [alice (Some 6) (Some ''Complete'')]
        (fresh_frame [alice (Some 8) (Some ''Complete'')]) failing_insert
        [alice (Some 8) (Some ''Complete'')]) = []
   \<and> delete_exc healthy_engine = None
   \<and> insert_raises healthy_engine = None
   \<and> out_table (process_timesheet_changes example_python [alice (Some 6) (Some ''Complete'')]
        (fresh_frame [alice (Some 8) (Some ''Complete'')]) healthy_engine
        [alice (Some 8) (Some ''Complete'')])
       = [\<lparr>Date = Some (2025, 1, 1, 0), Employee_Name = Some ''Alice'', Project_ID = Some ''P1'',
           Status = Some ''Complete'', Employee_Role = Some ''unknown'',
           Office_Location = Some ''unknown'', Project_Name = Some ''unknown'',
           Working_Hours = Some 6, Interviews = None, Database = None,
           Database_Converted = None\<rparr>]"
proof -
  note t = process_timesheet_changes_halves
    [of example_python "[alice (Some 6) (Some ''Complete'')]"
       "fresh_frame [alice (Some 8) (Some ''Complete'')]" _ "[alice (Some 8) (Some ''Complete'')]",
     unfolded planned_alice]
  have 1: "out_table (process_timesheet_changes example_python [alice (Some 6) (Some ''Complete'')]
        (fresh_frame [alice (Some 8) (Some ''Complete'')]) failing_delete
        [alice (Some 8) (Some ''Complete'')]) = [alice (Some 8) (Some ''Complete'')]"
    using t [of failing_delete] by (simp add: engine_facts)
  have 2: "out_table (process_timesheet_changes example_python [alice (Some 6) (Some ''Complete'')]
        (fresh_frame [alice (Some 8) (Some ''Complete'')]) failing_insert
        [alice (Some 8) (Some ''Complete'')]) = []"
    using t [of failing_insert] payload_alice by (simp add: engine_facts delete_alice)
  have 3: "out_table (process_timesheet_changes example_python [alice (Some 6) (Some ''Complete'')]
        (fresh_frame [alice (Some 8) (Some ''Complete'')]) healthy_engine
        [alice (Some 8) (Some ''Complete'')])
       = [\<lparr>Date = Some (2025, 1, 1, 0), Employee_Name = Some ''Alice'', Project_ID = Some ''P1'',
           Status = Some ''Complete'', Employee_Role = Some ''unknown'',
           Office_Location = Some ''unknown'', Project_Name = Some ''unknown'',
           Working_Hours = Some 6, Interviews = None, Database = None,
           Database_Converted = None\<rparr>]"
    using t [of healthy_engine] by (simp add: engine_facts delete_alice stored_alice)
  from 1 2 3 show ?thesis by (simp add: engine_facts planned_alice)
qed

text \<open>
  A half-applied update: the stored row of Alice is deleted, the insert of its new
  version raises, and the run ends with an empty table and one error.
\<close>

theorem process_timesheet_changes_half_applied:
  "out_table (process_timesheet_changes example_python [alice (Some 6) (Some ''Complete'')]
      (fresh_frame [alice (Some 8) (Some ''Complete'')]) failing_insert
      [alice (Some 8) (Some ''Complete'')]) = []
   \<and> errors (out_stats (process_timesheet_changes example_python
        [alice (Some 6) (Some ''Complete'')]
        (fresh_frame [alice (Some 8) (Some ''Complete'')]) failing_insert
        [alice (Some 8) (Some ''Complete'')]))
       = [''Error inserting or updating timesheet data: connection lost'']"
proof -
  have d: "planned_updates example_python [alice (Some 6) (Some ''Complete'')]
      (fresh_frame [alice (Some 8) (Some ''Complete'')]) = [] \<or> delete_exc failing_insert = None"
    by (simp add: engine_facts)
  have p: "prepare_timesheet_for_insert example_python
      (planned_inserts example_python [alice (Some 6) (Some ''Complete'')]
         (fresh_frame [alice (Some 8) (Some ''Complete'')])
       @ planned_updates example_python [alice (Some 6) (Some ''Complete'')]
           (fresh_frame [alice (Some 8) (Some ''Complete'')])) \<noteq> []"
    using payload_alice by (simp add: planned_alice)
  from process_timesheet_changes_insert_raises [OF d p engine_facts(3)]
  show ?thesis by (simp add: planned_alice delete_alice)
qed

end
